theory Spec2Isabelle
  imports Complex_Main "HOL-Library.Word"
begin

section \<open>JavaScript values\<close>

text \<open>
  The extension is TypeScript running in a browser. A JavaScript string is a sequence of
  UTF-16 code units, so a string is a list of 16-bit words here; \<open>js\<close> turns an
  ASCII literal into one. A number that the program reads from the page address can be
  \<open>NaN\<close>; integers are exact (the page numbers and clock readings the program
  handles stay far below 2^53).
\<close>

type_synonym jsstring = "16 word list"

definition js :: "string \<Rightarrow> jsstring" where
  "js s = map (\<lambda>c. of_nat (of_char c)) s"

datatype jsnum = Num int | NaN

text \<open>\<open>a === b\<close> on numbers: \<open>NaN\<close> is not equal to itself.\<close>

definition strictEq :: "jsnum \<Rightarrow> jsnum \<Rightarrow> bool" where
  "strictEq a b = (case a of NaN \<Rightarrow> False | Num x \<Rightarrow> (case b of NaN \<Rightarrow> False | Num y \<Rightarrow> x = y))"

text \<open>
  White space as \<open>String.prototype.trim\<close> and \<open>parseInt\<close> read it: the
  WhiteSpace and LineTerminator code points of ECMAScript.
\<close>

definition isWhiteSpace :: "16 word \<Rightarrow> bool" where
  "isWhiteSpace c = (c \<in> set [0x09, 0x0A, 0x0B, 0x0C, 0x0D, 0x20, 0xA0, 0x1680,
     0x2000, 0x2001, 0x2002, 0x2003, 0x2004, 0x2005, 0x2006, 0x2007, 0x2008, 0x2009, 0x200A,
     0x2028, 0x2029, 0x202F, 0x205F, 0x3000, 0xFEFF])"

definition trim :: "jsstring \<Rightarrow> jsstring" where
  "trim s = rev (dropWhile isWhiteSpace (rev (dropWhile isWhiteSpace s)))"

text \<open>
  \<open>x || d\<close> where \<open>x\<close> is a string or \<open>undefined\<close> (\<open>None\<close>):
  the empty string is falsy too.
\<close>

definition orElse :: "jsstring option \<Rightarrow> jsstring \<Rightarrow> jsstring" where
  "orElse v d = (case v of None \<Rightarrow> d | Some s \<Rightarrow> if s = [] then d else s)"

text \<open>\<open>el?.innerText?.trim()\<close>: \<open>None\<close> when the selector matched no element.\<close>

definition innerTextTrim :: "jsstring option \<Rightarrow> jsstring option" where
  "innerTextTrim el = map_option trim el"

text \<open>\<open>Number.prototype.toString\<close> on an integer or \<open>NaN\<close>.\<close>

fun digitsOf :: "nat \<Rightarrow> jsstring" where
  "digitsOf n = (if n < 10 then [of_nat (48 + n)] else digitsOf (n div 10) @ [of_nat (48 + n mod 10)])"

declare digitsOf.simps [simp del]

definition numToString :: "jsnum \<Rightarrow> jsstring" where
  "numToString v = (case v of NaN \<Rightarrow> js ''NaN''
     | Num i \<Rightarrow> if i < 0 then js ''-'' @ digitsOf (nat (- i)) else digitsOf (nat i))"

text \<open>
  \<open>parseInt(s, 10)\<close>: leading white space, an optional sign, then the longest run of
  decimal digits; \<open>NaN\<close> when there is no digit.
\<close>

definition isDigit :: "16 word \<Rightarrow> bool" where
  "isDigit c = (0x30 \<le> c \<and> c \<le> 0x39)"

definition digitsValue :: "jsstring \<Rightarrow> int" where
  "digitsValue ds = foldl (\<lambda>a c. 10 * a + (uint c - 48)) 0 ds"

definition parseInt :: "jsstring \<Rightarrow> jsnum" where
  "parseInt s =
     (let t = dropWhile isWhiteSpace s;
          neg = (t \<noteq> [] \<and> hd t = 0x2D);
          u = (if t \<noteq> [] \<and> (hd t = 0x2D \<or> hd t = 0x2B) then tl t else t);
          ds = takeWhile isDigit u
      in if ds = [] then NaN else Num (if neg then - digitsValue ds else digitsValue ds))"

text \<open>\<open>s.includes(n)\<close>, \<open>s.replace(/c/g, r)\<close> and \<open>parts.join(sep)\<close>.\<close>

fun jsIncludes :: "jsstring \<Rightarrow> jsstring \<Rightarrow> bool" where
  "jsIncludes [] n = (n = [])"
| "jsIncludes (x # xs) n = (take (length n) (x # xs) = n \<or> jsIncludes xs n)"

definition replaceAll :: "16 word \<Rightarrow> jsstring \<Rightarrow> jsstring \<Rightarrow> jsstring" where
  "replaceAll c r s = concat (map (\<lambda>x. if x = c then r else [x]) s)"

fun join :: "jsstring \<Rightarrow> jsstring list \<Rightarrow> jsstring" where
  "join sep [] = []"
| "join sep [x] = x"
| "join sep (x # y # ys) = x @ sep @ join sep (y # ys)"

text \<open>\<open>xs[i]\<close>: \<open>undefined\<close> (\<open>None\<close>) out of range.\<close>

definition nthOpt :: "'a list \<Rightarrow> nat \<Rightarrow> 'a option" where
  "nthOpt xs i = (if i < length xs then Some (xs ! i) else None)"

text \<open>The index of the first element a loop with an early \<open>return\<close> stops at.\<close>

fun findIndex :: "('a \<Rightarrow> bool) \<Rightarrow> 'a list \<Rightarrow> nat option" where
  "findIndex P [] = None"
| "findIndex P (x # xs) = (if P x then Some 0 else map_option Suc (findIndex P xs))"

section \<open>The data model (types.ts)\<close>

datatype StarFilter = one_star | two_star | three_star | four_star | five_star

definition STAR_FILTERS :: "StarFilter list" where
  "STAR_FILTERS = [one_star, two_star, three_star, four_star, five_star]"

text \<open>The string a \<open>StarFilter\<close> is at run time.\<close>

fun filterName :: "StarFilter \<Rightarrow> jsstring" where
  "filterName one_star = js ''one_star''"
| "filterName two_star = js ''two_star''"
| "filterName three_star = js ''three_star''"
| "filterName four_star = js ''four_star''"
| "filterName five_star = js ''five_star''"

text \<open>The labels end in the code unit U+2605 (a black star).\<close>

fun STAR_LABELS :: "StarFilter \<Rightarrow> jsstring" where
  "STAR_LABELS one_star = [0x31, 0x2605]"
| "STAR_LABELS two_star = [0x32, 0x2605]"
| "STAR_LABELS three_star = [0x33, 0x2605]"
| "STAR_LABELS four_star = [0x34, 0x2605]"
| "STAR_LABELS five_star = [0x35, 0x2605]"

text \<open>
  \<open>Review\<close>: \<open>starFilter\<close> and \<open>pageNumber\<close> are optional in the type. The
  field \<open>id\<close> is \<open>reviewId\<close> here.
\<close>

record Review =
  reviewId :: jsstring
  starRating :: jsstring
  author :: jsstring
  title :: jsstring
  date :: jsstring
  content :: jsstring
  verified :: bool
  variant :: jsstring
  images :: "jsstring list"
  starFilter :: "jsstring option"
  pageNumber :: "jsnum option"

record ScrapeSession =
  isActive :: bool
  reviews :: "Review list"
  currentStarIndex :: nat
  currentPage :: jsnum
  lastUrl :: jsstring
  startedAt :: int
  lastUpdated :: int

section \<open>CSV export\<close>

text \<open>
  \<open>downloadCSV\<close> (content script) and \<open>handleDownloadCSV\<close> (background worker)
  build a row from the same array literal, \<open>csvValues\<close>. A template literal
  \<open>`"${s}"`\<close> is \<open>quoteField s\<close>; the code unit 0x22 is the double quote, 0x0A the
  line feed, 0x2C the comma, 0x20 the space and 0xFEFF the byte-order mark.
\<close>

definition quoteField :: "jsstring \<Rightarrow> jsstring" where
  "quoteField s = [0x22] @ s @ [0x22]"

definition csvHeaders :: "jsstring list" where
  "csvHeaders = [js ''Star Filter'', js ''Page'', js ''ID'', js ''Author'', js ''Rating'',
     js ''Title'', js ''Date'', js ''Variant'', js ''Verified'', js ''Review Body'']"

definition csvValues :: "Review \<Rightarrow> jsstring list" where
  "csvValues row =
     [orElse (starFilter row) (js ''N/A''),
      orElse (map_option numToString (pageNumber row)) (js ''N/A''),
      quoteField (replaceAll 0x22 [0x22, 0x22] (reviewId row)),
      quoteField (replaceAll 0x22 [0x22, 0x22] (author row)),
      quoteField (starRating row),
      quoteField (replaceAll 0x22 [0x22, 0x22] (title row)),
      quoteField (date row),
      quoteField (variant row),
      (if verified row then js ''Yes'' else js ''No''),
      quoteField (replaceAll 0x0A [0x20] (replaceAll 0x22 [0x22, 0x22] (content row)))]"

definition BOM :: jsstring where
  "BOM = [0xFEFF]"

section \<open>Effects\<close>

text \<open>
  What a function does beyond its result is a list of effects, in program order. A
  \<open>log(msg, level)\<close> call is recorded by its level (its text is diagnostic only);
  a storage write is recorded and also applied to the modelled storage.
\<close>

datatype LogLevel = LogInfo | LogSuccess | LogWarn | LogError

datatype Message =
    REVIEWS_UPDATE nat "jsstring option" jsnum
  | WAITING_STATUS real
  | SCRAPING_COMPLETE nat
  | SCRAPING_STOPPED

datatype Effect =
    Log LogLevel
  | Alert
  | SendMessage Message
  | Delay real
  | WaitForPageLoad
  | ScrollTo
  | ClickHistogramRow nat
  | ClickFilterLink nat
  | SelectDropdown jsstring
  | ClickNextButton
  | SetLocationHref jsstring
  | DownloadFile jsstring
  | LocalStorageSet ScrapeSession
  | ChromeStorageSet ScrapeSession
  | LocalStorageRemove
  | ChromeStorageRemove
  | SetIsScanning bool

text \<open>The effects that make the page navigate: a click on a control, or a new address.\<close>

fun navigating :: "Effect \<Rightarrow> bool" where
  "navigating (ClickHistogramRow i) = True"
| "navigating (ClickFilterLink i) = True"
| "navigating (SelectDropdown v) = True"
| "navigating ClickNextButton = True"
| "navigating (SetLocationHref h) = True"
| "navigating e = False"

text \<open>The effects that write the persisted session, in either storage tier.\<close>

fun sessionWrite :: "Effect \<Rightarrow> bool" where
  "sessionWrite (LocalStorageSet s) = True"
| "sessionWrite (ChromeStorageSet s) = True"
| "sessionWrite LocalStorageRemove = True"
| "sessionWrite ChromeStorageRemove = True"
| "sessionWrite e = False"

section \<open>The rendered page\<close>

text \<open>
  A review card (\<open>li[data-hook="review"]\<close>) as \<open>extractReviews\<close> reads it: the
  \<open>innerText\<close> of the first element each selector matches (\<open>None\<close> when it
  matches nothing), the \<open>id\<close> attribute (empty when absent), and whether the
  verified-purchase badge is there. \<open>raises\<close> marks a card on which a DOM access
  throws, the case the \<open>try\<close>/\<open>catch\<close> around each card is for.
\<close>

record Card =
  raises :: bool
  cardId :: jsstring
  profileName :: "jsstring option"
  ratingAlt :: "jsstring option"
  titleSpan :: "jsstring option"
  reviewDate :: "jsstring option"
  reviewBody :: "jsstring option"
  avpBadge :: bool
  formatStrip :: "jsstring option"

text \<open>
  The document and its address, as far as the content script reads them:
  \<^item> \<open>href\<close>, \<open>pathname\<close>: \<open>window.location\<close>; \<open>searchParams\<close>: the
    key/value pairs of \<open>location.search\<close> in order (\<open>URLSearchParams.get\<close> returns
    the first value of a key);
  \<^item> \<open>cards\<close>: the review cards; \<open>noReviewsSection\<close>: \<open>.no-reviews-section\<close>
    is present;
  \<^item> \<open>captchaForm\<close>, \<open>bodyInnerText\<close>: what \<open>detectCaptcha\<close> looks at;
  \<^item> \<open>pagerLast\<close>: one entry per anchor inside an \<open>li.a-last\<close>, \<open>True\<close> when
    that item has the class \<open>a-disabled\<close>;
  \<^item> \<open>histogramRows\<close>: the \<open>data-reviews-state-param\<close> attribute of each
    \<open>.histogram-row-container\<close>; \<open>filterLinks\<close>: the \<open>href\<close> of each anchor
    matched by \<open>a[href*="filterByStar"]\<close>; \<open>dropdown\<close>: the option values of the
    star dropdown, when there is one;
  \<^item> \<open>seeAllLink\<close>: the \<open>href\<close> of the "see all reviews" link of a product page.
\<close>

record Page =
  href :: jsstring
  pathname :: jsstring
  searchParams :: "(jsstring \<times> jsstring) list"
  cards :: "Card list"
  noReviewsSection :: bool
  captchaForm :: bool
  bodyInnerText :: jsstring
  pagerLast :: "bool list"
  histogramRows :: "jsstring option list"
  filterLinks :: "jsstring list"
  dropdown :: "jsstring list option"
  seeAllLink :: "jsstring option"

section \<open>Review extraction\<close>

datatype Thrown = DomError

text \<open>
  The body of the \<open>try\<close> block for the card at \<open>index\<close>: it throws, or it pushes
  a review (\<open>Some\<close>) or nothing. \<open>now\<close> is the reading of \<open>Date.now()\<close>.
\<close>

definition cardReview :: "int \<Rightarrow> StarFilter option \<Rightarrow> jsnum \<Rightarrow> nat \<Rightarrow> Card \<Rightarrow> Thrown + Review option" where
  "cardReview now starFilter' pageNum index cardEl =
     (if raises cardEl then Inl DomError
      else
        (let id' = (if cardId cardEl \<noteq> [] then cardId cardEl
                    else js ''review-'' @ numToString (Num now) @ js ''-'' @ numToString (Num (int index)));
             author' = orElse (innerTextTrim (profileName cardEl)) (js ''Anonymous'');
             starRating' = orElse (innerTextTrim (ratingAlt cardEl)) (js ''N/A'');
             title' = orElse (innerTextTrim (titleSpan cardEl)) [];
             date' = orElse (innerTextTrim (reviewDate cardEl)) [];
             content' = orElse (innerTextTrim (reviewBody cardEl)) [];
             verified' = avpBadge cardEl;
             variant' = orElse (innerTextTrim (formatStrip cardEl)) []
         in if content' \<noteq> [] \<and> length content' > 0
            then Inr (Some \<lparr>reviewId = id', starRating = starRating', author = author',
                   title = title', date = date', content = content', verified = verified',
                   variant = variant', images = [], starFilter = map_option STAR_LABELS starFilter',
                   pageNumber = Some pageNum\<rparr>)
            else Inr None))"

text \<open>\<open>reviewCards.forEach((cardEl, index) => ...)\<close>, from \<open>index\<close> on.\<close>

fun extractFrom :: "int \<Rightarrow> StarFilter option \<Rightarrow> jsnum \<Rightarrow> nat \<Rightarrow> Card list \<Rightarrow> Review list \<times> Effect list" where
  "extractFrom now starFilter' pageNum index [] = ([], [])"
| "extractFrom now starFilter' pageNum index (cardEl # rest) =
     (let (rs, es) = extractFrom now starFilter' pageNum (Suc index) rest
      in case cardReview now starFilter' pageNum index cardEl of
           Inl e \<Rightarrow> (rs, Log LogWarn # es)
         | Inr None \<Rightarrow> (rs, es)
         | Inr (Some r) \<Rightarrow> (r # rs, es))"

definition extractReviews :: "int \<Rightarrow> Page \<Rightarrow> StarFilter option \<Rightarrow> jsnum \<Rightarrow> Review list \<times> Effect list" where
  "extractReviews now page starFilter' pageNum =
     (let (rs, es) = extractFrom now starFilter' pageNum 0 (cards page)
      in (rs, Log LogInfo # es))"

section \<open>Navigation helpers\<close>

definition hasNextPage :: "Page \<Rightarrow> bool" where
  "hasNextPage page = (False \<in> set (pagerLast page))"

definition clickNextPage :: "Page \<Rightarrow> bool \<times> Effect list" where
  "clickNextPage page = (if pagerLast page \<noteq> [] then (True, [ClickNextButton]) else (False, []))"

definition getCurrentPageNumber :: "Page \<Rightarrow> jsnum" where
  "getCurrentPageNumber page =
     (case map_of (searchParams page) (js ''pageNumber'') of
        None \<Rightarrow> Num 1
      | Some pageParam \<Rightarrow> if pageParam = [] then Num 1 else parseInt pageParam)"

text \<open>\<open>None\<close> is \<open>null\<close>: no filter of \<open>STAR_FILTERS\<close> is selected.\<close>

definition getCurrentStarFilter :: "Page \<Rightarrow> StarFilter option" where
  "getCurrentStarFilter page =
     (case map_of (searchParams page) (js ''filterByStar'') of
        None \<Rightarrow> None
      | Some filter' \<Rightarrow> find (\<lambda>f. filterName f = filter') STAR_FILTERS)"

text \<open>
  The text a filter has in a template literal; an index outside \<open>STAR_FILTERS\<close> gives
  \<open>undefined\<close>.
\<close>

definition filterText :: "StarFilter option \<Rightarrow> jsstring" where
  "filterText f = (case f of None \<Rightarrow> js ''undefined'' | Some g \<Rightarrow> filterName g)"

definition clickStarFilter :: "Page \<Rightarrow> StarFilter option \<Rightarrow> bool \<times> Effect list" where
  "clickStarFilter page starFilter' =
     (case findIndex (\<lambda>link. jsIncludes (orElse link [])
               ([0x22] @ js ''filterByStar'' @ [0x22, 0x3A, 0x22] @ filterText starFilter' @ [0x22]))
             (histogramRows page) of
        Some i \<Rightarrow> (True, [Log LogInfo, ClickHistogramRow i, Log LogSuccess])
      | None \<Rightarrow>
         (case findIndex (\<lambda>h. jsIncludes h (js ''filterByStar='' @ filterText starFilter')) (filterLinks page) of
            Some i \<Rightarrow> (True, [Log LogInfo, ClickFilterLink i, Log LogSuccess])
          | None \<Rightarrow>
             (case dropdown page of
                None \<Rightarrow> (False, [Log LogInfo, Log LogError])
              | Some opts \<Rightarrow>
                  if filterText starFilter' \<in> set opts
                  then (True, [Log LogInfo, SelectDropdown (filterText starFilter'), Log LogSuccess])
                  else (False, [Log LogInfo, Log LogError]))))"

definition detectCaptcha :: "Page \<Rightarrow> bool" where
  "detectCaptcha page =
     (captchaForm page \<or> jsIncludes (bodyInnerText page) (js ''Enter the characters you see below''))"

text \<open>
  \<open>downloadCSV\<close>: nothing but an error log for an empty list; otherwise one file whose
  text is the byte-order mark and the rows, pushed one by one after the header row.
\<close>

definition downloadCSV :: "Review list \<Rightarrow> Effect list" where
  "downloadCSV reviews' =
     (if length reviews' = 0 then [Log LogError]
      else
        (let csvRows = foldl (\<lambda>acc row. acc @ [join [0x2C] (csvValues row)]) [join [0x2C] csvHeaders] reviews';
             csvContent = join [0x0A] csvRows
         in [DownloadFile (BOM @ csvContent), Log LogSuccess]))"

section \<open>Storage, the content script's globals and the environment of a tick\<close>

text \<open>
  \<open>World\<close> is the state that outlives a tick:
  \<^item> \<open>localStorage\<close>: the session stored under \<open>amazon_scraper_session\<close> in the
    page's \<open>localStorage\<close> (the fast tier; it is kept as JSON text, which gives a
    session back as it was written);
  \<^item> \<open>chromeSession\<close>, \<open>isScanning\<close>, \<open>delaySettings\<close>: the keys of
    \<open>chrome.storage.local\<close> (the durable tier); \<open>isScanning\<close> is \<open>False\<close>
    when the key is absent too, as the program only tests its truth;
  \<^item> \<open>lastProcessedUrl\<close>, \<open>isProcessing\<close>: the globals of the content script.
  Storage calls take effect in program order and succeed; the handlers for a failed
  write only log.

  \<open>Env\<close> is what the outside gives one tick: the clock, the value of
  \<open>Math.random()\<close> (a real in [0, 1)), and the document as it is at each point where
  the tick reads it: when the tick starts (\<open>page\<close>), when the wait before the page
  advance is over (\<open>pageAtClick\<close>), three seconds after the click on the next-page
  control (\<open>pageAfterClick\<close>), and after the wait before a filter switch
  (\<open>pageAtSwitch\<close>).
\<close>

record World =
  localStorage :: "ScrapeSession option"
  chromeSession :: "ScrapeSession option"
  isScanning :: bool
  delaySettings :: "(real \<times> real) option"
  lastProcessedUrl :: jsstring
  isProcessing :: bool

record Env =
  now :: int
  random :: real
  page :: Page
  pageAtClick :: Page
  pageAfterClick :: Page
  pageAtSwitch :: Page

definition DELAY_BETWEEN_PAGES_MIN :: real where
  "DELAY_BETWEEN_PAGES_MIN = 2000"

definition DELAY_BETWEEN_PAGES_MAX :: real where
  "DELAY_BETWEEN_PAGES_MAX = 5000"

definition DELAY_BETWEEN_STARS :: real where
  "DELAY_BETWEEN_STARS = 3000"

text \<open>
  \<open>randomDelay(min, max)\<close> waits \<open>Math.floor(Math.random() * (max - min + 1) + min)\<close>
  milliseconds; \<open>u\<close> is the value of \<open>Math.random()\<close>. No function of the
  program calls it.
\<close>

definition randomDelay :: "real \<Rightarrow> real \<Rightarrow> real \<Rightarrow> Effect list" where
  "randomDelay u min' max' = [Delay (of_int \<lfloor>u * (max' - min' + 1) + min'\<rfloor>)]"

section \<open>Session store\<close>

definition loadSessionFromLocalStorage :: "World \<Rightarrow> ScrapeSession option \<times> Effect list" where
  "loadSessionFromLocalStorage w =
     (case localStorage w of
        Some session \<Rightarrow> (Some session, [Log LogInfo])
      | None \<Rightarrow> (None, []))"

definition saveSession :: "int \<Rightarrow> ScrapeSession \<Rightarrow> World \<Rightarrow> ScrapeSession \<times> World \<times> Effect list" where
  "saveSession t session w =
     (let session' = session\<lparr>lastUpdated := t\<rparr>
      in (session',
          w\<lparr>localStorage := Some session', chromeSession := Some session'\<rparr>,
          [LocalStorageSet session', ChromeStorageSet session']))"

definition clearSession :: "World \<Rightarrow> World \<times> Effect list" where
  "clearSession w =
     (w\<lparr>localStorage := None, chromeSession := None\<rparr>,
      [LocalStorageRemove, ChromeStorageRemove, Log LogInfo])"

definition getOrCreateSession :: "Env \<Rightarrow> World \<Rightarrow> ScrapeSession \<times> Effect list" where
  "getOrCreateSession env w =
     (case loadSessionFromLocalStorage w of
        (Some session, es) \<Rightarrow> (session, es)
      | (None, es) \<Rightarrow>
         (case chromeSession w of
            Some session \<Rightarrow> (session, es @ [Log LogInfo])
          | None \<Rightarrow>
              if \<not> isScanning w
              then (\<lparr>isActive = False, reviews = [], currentStarIndex = 0, currentPage = Num 1,
                      lastUrl = href (page env), startedAt = now env, lastUpdated = now env\<rparr>, es)
              else (\<lparr>isActive = True, reviews = [], currentStarIndex = 0, currentPage = Num 1,
                      lastUrl = [], startedAt = now env, lastUpdated = now env\<rparr>,
                    es @ [Log LogSuccess])))"

section \<open>The traversal controller\<close>

text \<open>
  \<open>switchToNextFilter\<close> and \<open>scrapeCurrentPage\<close> mutate the session object they
  are given; here they return it. \<open>waitForPageLoad\<close> only waits (its polling and its
  timeout warning are inside the effect \<open>WaitForPageLoad\<close>). The extension context is
  taken to be valid, so that \<open>chrome.runtime.sendMessage\<close> does not throw and the
  \<open>catch\<close> of \<open>mainController\<close> is never entered.
\<close>

definition switchToNextFilter :: "Env \<Rightarrow> ScrapeSession \<Rightarrow> World \<Rightarrow> ScrapeSession \<times> World \<times> Effect list" where
  "switchToNextFilter env session0 w =
     (let session = session0\<lparr>currentStarIndex := Suc (currentStarIndex session0), currentPage := Num 1\<rparr>
      in if currentStarIndex session \<ge> length STAR_FILTERS
         then
           (let (w1, es1) = clearSession w
            in (session, w1\<lparr>isScanning := False\<rparr>,
                [Log LogSuccess] @ downloadCSV (reviews session) @ es1 @
                [SendMessage (SCRAPING_COMPLETE (length (reviews session))), SetIsScanning False, Alert]))
         else
           (let nextFilter = nthOpt STAR_FILTERS (currentStarIndex session);
                (session1, w1, es1) = saveSession (now env) session w;
                (clicked, es2) = clickStarFilter (pageAtSwitch env) nextFilter
            in if clicked
               then (session1, w1,
                     [Log LogInfo] @ es1 @ [Delay DELAY_BETWEEN_STARS] @ es2 @ [WaitForPageLoad, Delay 2000])
               else
                 (let (session2, w2, es3) = saveSession (now env) (session1\<lparr>isActive := False\<rparr>) w1
                  in (session2, w2\<lparr>isScanning := False\<rparr>,
                      [Log LogInfo] @ es1 @ [Delay DELAY_BETWEEN_STARS] @ es2 @ [Log LogError] @ es3 @
                      [SetIsScanning False, Alert]))))"

text \<open>\<open>x || d\<close> on a number: zero is falsy.\<close>

definition numOr :: "real \<Rightarrow> real \<Rightarrow> real" where
  "numOr x d = (if x = 0 then d else x)"

text \<open>
  The wait before a page advance, as \<open>scrapeCurrentPage\<close> computes it from the stored
  \<open>delaySettings\<close> and the value \<open>u\<close> of \<open>Math.random()\<close>:
  \<open>Math.floor(Math.random() * (maxDelay - minDelay)) + minDelay\<close>.
\<close>

definition waitTime :: "(real \<times> real) option \<Rightarrow> real \<Rightarrow> real" where
  "waitTime settings u =
     (let minDelay = (case settings of None \<Rightarrow> DELAY_BETWEEN_PAGES_MIN | Some (mn, mx) \<Rightarrow> numOr mn DELAY_BETWEEN_PAGES_MIN);
          maxDelay = (case settings of None \<Rightarrow> DELAY_BETWEEN_PAGES_MAX | Some (mn, mx) \<Rightarrow> numOr mx DELAY_BETWEEN_PAGES_MAX)
      in of_int \<lfloor>u * (maxDelay - minDelay)\<rfloor> + minDelay)"

text \<open>
  \<open>currentFilter !== expectedFilter\<close>: \<open>currentFilter\<close> is a filter or \<open>null\<close>,
  \<open>expectedFilter\<close> a filter or \<open>undefined\<close>, so they are equal only when both are
  the same filter.
\<close>

definition filterMismatch :: "StarFilter option \<Rightarrow> StarFilter option \<Rightarrow> bool" where
  "filterMismatch currentFilter expectedFilter = (currentFilter = None \<or> currentFilter \<noteq> expectedFilter)"

text \<open>
  \<open>scrapeCurrentPage\<close> is three blocks in a row, each a definition here.
  \<open>validateFilter\<close> is its first block (the filter check): its result is \<open>True\<close>
  when the function returns there, after a successful click on the expected filter.
\<close>

definition validateFilter :: "Env \<Rightarrow> ScrapeSession \<Rightarrow> bool \<times> Effect list" where
  "validateFilter env session =
     (let currentFilter = getCurrentStarFilter (page env);
          expectedFilter = nthOpt STAR_FILTERS (currentStarIndex session)
      in if filterMismatch currentFilter expectedFilter
         then (if currentFilter = None
               then (let (clicked, es) = clickStarFilter (page env) expectedFilter
                     in if clicked then (True, [Log LogWarn, Log LogInfo] @ es @ [WaitForPageLoad, Delay 2000])
                        else (False, [Log LogWarn, Log LogInfo] @ es))
               else (False, [Log LogWarn]))
         else (False, []))"

text \<open>The second block: extract the reviews of the page, and store them if there are any.\<close>

definition extractAndSave :: "Env \<Rightarrow> ScrapeSession \<Rightarrow> World \<Rightarrow> ScrapeSession \<times> World \<times> Effect list" where
  "extractAndSave env session w =
     (let expectedFilter = nthOpt STAR_FILTERS (currentStarIndex session);
          pageNum = getCurrentPageNumber (page env);
          (found, es1) = extractReviews (now env) (page env) expectedFilter pageNum
      in if length found > 0
         then (let (session1, w1, es2) = saveSession (now env)
                      (session\<lparr>reviews := reviews session @ found, currentPage := pageNum\<rparr>) w
               in (session1, w1, es1 @ es2 @ [Log LogSuccess,
                     SendMessage (REVIEWS_UPDATE (length (reviews session1)) (map_option STAR_LABELS expectedFilter) pageNum)]))
         else (session, w, es1 @ [Log LogWarn]))"

text \<open>The third block: go to the next page, or to the next filter.\<close>

definition paginate :: "Env \<Rightarrow> ScrapeSession \<Rightarrow> World \<Rightarrow> ScrapeSession \<times> World \<times> Effect list" where
  "paginate env session w =
     (if hasNextPage (page env)
      then
        (let wt = waitTime (delaySettings w) (random env);
             es1 = [Log LogInfo, SendMessage (WAITING_STATUS wt), ScrollTo, Delay 1000, ScrollTo, Delay wt];
             oldPage = getCurrentPageNumber (pageAtClick env);
             (advanced, es2) = clickNextPage (pageAtClick env)
         in if advanced
            then
              (let newPage = getCurrentPageNumber (pageAfterClick env)
               in if strictEq newPage oldPage
                  then (let (session1, w1, es3) = switchToNextFilter env session w
                        in (session1, w1, es1 @ es2 @ [Delay 3000, Log LogWarn] @ es3))
                  else (session, w, es1 @ es2 @ [Delay 3000, Log LogInfo]))
            else (session, w, es1 @ es2))
      else
        (let (session1, w1, es3) = switchToNextFilter env session w
         in (session1, w1, [Log LogSuccess] @ es3)))"

definition scrapeCurrentPage :: "Env \<Rightarrow> ScrapeSession \<Rightarrow> World \<Rightarrow> ScrapeSession \<times> World \<times> Effect list" where
  "scrapeCurrentPage env session w =
     (let (returned, es0) = validateFilter env session
      in if returned then (session, w, es0)
         else
           (let (session1, w1, es1) = extractAndSave env session w;
                (session2, w2, es2) = paginate env session1 w1
            in (session2, w2, es0 @ es1 @ es2)))"

definition checkProductPageRedirect :: "Page \<Rightarrow> bool \<times> Effect list" where
  "checkProductPageRedirect p =
     (if jsIncludes (pathname p) (js ''/dp/'') \<and> \<not> jsIncludes (pathname p) (js ''/product-reviews/'')
      then (case seeAllLink p of
              Some h \<Rightarrow> (True, [Log LogInfo, Log LogSuccess, SetLocationHref h])
            | None \<Rightarrow> (False, [Log LogInfo]))
      else (False, []))"

text \<open>One tick: a call of \<open>mainController\<close> by the timer.\<close>

definition mainController :: "Env \<Rightarrow> World \<Rightarrow> World \<times> Effect list" where
  "mainController env w =
     (if isProcessing w then (w, [])
      else if cards (page env) = [] \<and> \<not> noReviewsSection (page env) then (w, [])
      else if detectCaptcha (page env) then (w, [Log LogError, Alert])
      else
        (let (session, es1) = getOrCreateSession env (w\<lparr>isProcessing := True\<rparr>)
         in if \<not> isActive session then (w\<lparr>isProcessing := False\<rparr>, es1)
            else
              (let (redirected, es2) = checkProductPageRedirect (page env)
               in if redirected then (w\<lparr>isProcessing := False\<rparr>, es1 @ es2)
                  else if href (page env) = lastProcessedUrl w then (w\<lparr>isProcessing := False\<rparr>, es1 @ es2)
                  else
                    (let currentUrl = href (page env);
                         w1 = w\<lparr>isProcessing := True, lastProcessedUrl := currentUrl\<rparr>;
                         (session', w2, es3) = scrapeCurrentPage env (session\<lparr>lastUrl := currentUrl\<rparr>) w1
                     in (w2\<lparr>isProcessing := False\<rparr>, es1 @ es2 @ [Log LogInfo] @ es3)))))"

text \<open>A run of ticks, one environment per tick; the effects of all of them in order.\<close>

fun ticks :: "Env list \<Rightarrow> World \<Rightarrow> World \<times> Effect list" where
  "ticks [] w = (w, [])"
| "ticks (env # envs) w =
     (let (w1, es1) = mainController env w;
          (w2, es2) = ticks envs w1
      in (w2, es1 @ es2))"

section \<open>The background worker\<close>

text \<open>
  \<open>handleDownloadCSV\<close> reads the session under \<open>amazon_scraper_session\<close> from
  \<open>chrome.storage.local\<close>. Its \<open>try\<close> block has no statement that raises on a
  well-typed session, so the \<open>catch\<close> branch has no counterpart here.
\<close>

record ExportResponse =
  success :: bool
  csv :: "jsstring option"
  error :: "jsstring option"

definition handleDownloadCSV :: "World \<Rightarrow> ExportResponse" where
  "handleDownloadCSV w =
     (case chromeSession w of
        None \<Rightarrow> \<lparr>success = False, csv = None, error = Some (js ''No reviews to export'')\<rparr>
      | Some session \<Rightarrow>
          if length (reviews session) = 0
          then \<lparr>success = False, csv = None, error = Some (js ''No reviews to export'')\<rparr>
          else
            (let rows = map csvValues (reviews session);
                 csvContent = join [0x0A] (join [0x2C] csvHeaders # map (join [0x2C]) rows)
             in \<lparr>success = True, csv = Some (BOM @ csvContent), error = None\<rparr>))"


text \<open>
  \<open>handleStopScraping\<close> writes \<open>isScanning: false\<close> to \<open>chrome.storage.local\<close>
  and broadcasts \<open>SCRAPING_STOPPED\<close>.
\<close>

definition handleStopScraping :: "World \<Rightarrow> World \<times> Effect list" where
  "handleStopScraping w = (w\<lparr>isScanning := False\<rparr>, [SetIsScanning False, SendMessage SCRAPING_STOPPED])"

section \<open>Vocabulary of the statements\<close>

text \<open>
  The definitions of this section are not code of the program; the theorems use them
  to say what a CSV field looks like. A field is quoted when it starts and ends with a
  double quote; \<open>inner\<close> is what stands between the two. \<open>undouble\<close> reads a
  quoted field's text as a CSV reader does: two double quotes in a row stand for one.
\<close>

definition isQuoted :: "jsstring \<Rightarrow> bool" where
  "isQuoted f = (length f \<ge> 2 \<and> hd f = 0x22 \<and> last f = 0x22)"

definition inner :: "jsstring \<Rightarrow> jsstring" where
  "inner f = butlast (tl f)"

fun undouble :: "jsstring \<Rightarrow> jsstring" where
  "undouble (a # b # xs) = (if a = 0x22 \<and> b = 0x22 then 0x22 # undouble xs else a # undouble (b # xs))"
| "undouble xs = xs"

text \<open>
  \<open>doubled s\<close> is the text \<open>s\<close> with every double quote written twice and every
  other code unit as it is; \<open>spaced s\<close> is \<open>s\<close> with every line feed turned into
  a space.
\<close>

fun doubled :: "jsstring \<Rightarrow> jsstring" where
  "doubled [] = []"
| "doubled (c # cs) = (if c = 0x22 then [0x22, 0x22] else [c]) @ doubled cs"

fun spaced :: "jsstring \<Rightarrow> jsstring" where
  "spaced [] = []"
| "spaced (c # cs) = (if c = 0x0A then 0x20 else c) # spaced cs"

text \<open>
  A session keeps only reviews with a body; a world stores only such sessions; an effect
  that writes a session writes such a session. A card's element is missing when the
  selector matched nothing or its text is white space only.
\<close>

definition bodiesNonEmpty :: "ScrapeSession \<Rightarrow> bool" where
  "bodiesNonEmpty s = (\<forall>r \<in> set (reviews s). length (content r) > 0)"

definition storedBodiesNonEmpty :: "World \<Rightarrow> bool" where
  "storedBodiesNonEmpty w =
     ((case localStorage w of None \<Rightarrow> True | Some s \<Rightarrow> bodiesNonEmpty s) \<and>
      (case chromeSession w of None \<Rightarrow> True | Some s \<Rightarrow> bodiesNonEmpty s))"

fun storesNonEmptyBodies :: "Effect \<Rightarrow> bool" where
  "storesNonEmptyBodies (LocalStorageSet s) = bodiesNonEmpty s"
| "storesNonEmptyBodies (ChromeStorageSet s) = bodiesNonEmpty s"
| "storesNonEmptyBodies e = True"

definition missing :: "jsstring option \<Rightarrow> bool" where
  "missing el = (case el of None \<Rightarrow> True | Some t \<Rightarrow> trim t = [])"

text \<open>The effect that writes the CSV file.\<close>

fun isDownload :: "Effect \<Rightarrow> bool" where
  "isDownload (DownloadFile d) = True"
| "isDownload e = False"

section \<open>Example inputs\<close>

text \<open>
  Concrete inputs the closed theorems below evaluate the program on. The review has a
  double quote in its author (\<open>A"B\<close>) and in its rating (\<open>"5\<close>), and a line feed
  in its body.
\<close>

definition exampleReview :: Review where
  "exampleReview =
     \<lparr>reviewId = js ''R1'', starRating = [0x22, 0x35], author = [0x41, 0x22, 0x42],
      title = js ''Good'', date = js ''1 May 2024'', content = [0x61, 0x0A, 0x62],
      verified = True, variant = [], images = [], starFilter = Some (STAR_LABELS one_star),
      pageNumber = Some (Num 2)\<rparr>"

definition exampleSession :: ScrapeSession where
  "exampleSession =
     \<lparr>isActive = True, reviews = [exampleReview], currentStarIndex = 0, currentPage = Num 2,
      lastUrl = js ''https://www.amazon.com/product-reviews/B0?filterByStar=one_star&pageNumber=2'',
      startedAt = 1000, lastUpdated = 2000\<rparr>"

definition emptyWorld :: World where
  "emptyWorld =
     \<lparr>localStorage = None, chromeSession = None, isScanning = False, delaySettings = None,
      lastProcessedUrl = [], isProcessing = False\<rparr>"

text \<open>
  A listing page for the first filter, page 2, with four cards: one with nothing but a
  body, one whose DOM access throws, one whose body is blank, and one with every field.
  Its next-page control is enabled and it has a link to the second filter. In
  \<open>exampleEnv\<close> the click on the next-page control leads to page 3.
\<close>

definition bareCard :: Card where
  "bareCard = \<lparr>raises = False, cardId = [], profileName = None, ratingAlt = None, titleSpan = None,
     reviewDate = None, reviewBody = Some (js '' Great ''), avpBadge = False, formatStrip = None\<rparr>"

definition brokenCard :: Card where
  "brokenCard = bareCard\<lparr>raises := True\<rparr>"

definition blankCard :: Card where
  "blankCard = bareCard\<lparr>cardId := js ''R0'', reviewBody := Some (js ''  '')\<rparr>"

definition fullCard :: Card where
  "fullCard = \<lparr>raises = False, cardId = js ''R2'', profileName = Some (js ''Ann''),
     ratingAlt = Some (js ''5.0 out of 5 stars''), titleSpan = Some (js ''Nice''),
     reviewDate = Some (js ''1 May 2024''), reviewBody = Some (js ''Works''), avpBadge = True,
     formatStrip = Some (js ''Red'')\<rparr>"

definition listingPage :: Page where
  "listingPage =
     \<lparr>href = js ''https://www.amazon.com/product-reviews/B0?filterByStar=one_star&pageNumber=2'',
      pathname = js ''/product-reviews/B0'',
      searchParams = [(js ''filterByStar'', js ''one_star''), (js ''pageNumber'', js ''2'')],
      cards = [bareCard, brokenCard, blankCard, fullCard],
      noReviewsSection = False, captchaForm = False, bodyInnerText = [],
      pagerLast = [False], histogramRows = [],
      filterLinks = [js ''https://www.amazon.com/product-reviews/B0?filterByStar=two_star''],
      dropdown = None, seeAllLink = None\<rparr>"

definition nextPage :: Page where
  "nextPage = listingPage
     \<lparr>href := js ''https://www.amazon.com/product-reviews/B0?filterByStar=one_star&pageNumber=3'',
      searchParams := [(js ''filterByStar'', js ''one_star''), (js ''pageNumber'', js ''3'')]\<rparr>"

definition exampleEnv :: Env where
  "exampleEnv = \<lparr>now = 5000, random = 1 / 2, page = listingPage, pageAtClick = listingPage,
     pageAfterClick = nextPage, pageAtSwitch = listingPage\<rparr>"


definition bareReview :: Review where
  "bareReview = \<lparr>reviewId = js ''review-5000-0'', starRating = js ''N/A'', author = js ''Anonymous'',
     title = [], date = [], content = js ''Great'', verified = False, variant = [], images = [],
     starFilter = Some [0x31, 0x2605], pageNumber = Some (Num 2)\<rparr>"

text \<open>
  More inputs: a world with nothing stored and the start flag set; a session as
  \<open>getOrCreateSession\<close> creates it; the listing page with only the blank card; the
  same product's reviews with no filter selected and no control to select one
  (\<open>unfilteredPage\<close>), or with a link to the first filter (\<open>linkedPage\<close>); and an
  environment in which the click on the next-page control leaves the page where it was
  (\<open>stalledEnv\<close>).
\<close>

definition blankPage :: Page where
  "blankPage = listingPage\<lparr>cards := [blankCard]\<rparr>"

definition freshSession :: ScrapeSession where
  "freshSession = \<lparr>isActive = True, reviews = [], currentStarIndex = 0, currentPage = Num 1,
     lastUrl = [], startedAt = 5000, lastUpdated = 5000\<rparr>"

definition unfilteredPage :: Page where
  "unfilteredPage = listingPage\<lparr>href := js ''https://www.amazon.com/product-reviews/B0'', searchParams := [],
     cards := [fullCard], filterLinks := []\<rparr>"

definition startWorld :: World where
  "startWorld = emptyWorld\<lparr>isScanning := True\<rparr>"

definition blankEnv :: Env where
  "blankEnv = exampleEnv\<lparr>page := blankPage, pageAtClick := blankPage\<rparr>"

definition unfilteredEnv :: Env where
  "unfilteredEnv = exampleEnv\<lparr>page := unfilteredPage, pageAtClick := unfilteredPage\<rparr>"

definition linkedPage :: Page where
  "linkedPage = unfilteredPage\<lparr>filterLinks := [js ''https://www.amazon.com/product-reviews/B0?filterByStar=one_star'']\<rparr>"

definition linkedEnv :: Env where
  "linkedEnv = exampleEnv\<lparr>page := linkedPage\<rparr>"

definition stalledEnv :: Env where
  "stalledEnv = exampleEnv\<lparr>pageAfterClick := listingPage\<rparr>"

text \<open>
  The end of a run: the example session at the last filter, stored in both tiers, on
  the last filter's only page (its next-page control is disabled). And the example
  session at the first filter, stored in both tiers.
\<close>

definition lastSession :: ScrapeSession where
  "lastSession = exampleSession\<lparr>currentStarIndex := 4\<rparr>"

definition lastPage :: Page where
  "lastPage = listingPage\<lparr>href := js ''https://www.amazon.com/product-reviews/B0?filterByStar=five_star'',
     searchParams := [(js ''filterByStar'', js ''five_star'')], cards := [fullCard], pagerLast := [True]\<rparr>"

definition lastEnv :: Env where
  "lastEnv = exampleEnv\<lparr>page := lastPage\<rparr>"

definition lastWorld :: World where
  "lastWorld = startWorld\<lparr>localStorage := Some lastSession, chromeSession := Some lastSession\<rparr>"

definition storedWorld :: World where
  "storedWorld = startWorld\<lparr>localStorage := Some exampleSession, chromeSession := Some exampleSession\<rparr>"

section \<open>Helper lemmas\<close>

lemmas eval_defs = mainController_def getOrCreateSession_def loadSessionFromLocalStorage_def
  detectCaptcha_def checkProductPageRedirect_def scrapeCurrentPage_def validateFilter_def
  extractAndSave_def paginate_def saveSession_def hasNextPage_def clickNextPage_def
  getCurrentPageNumber_def getCurrentStarFilter_def filterMismatch_def nthOpt_def STAR_FILTERS_def
  parseInt_def isDigit_def digitsValue_def strictEq_def waitTime_def
  extractReviews_def cardReview_def orElse_def innerTextTrim_def trim_def isWhiteSpace_def
  js_def Let_def

lemma join_Cons: "join sep (x # xs) = x @ concat (map (\<lambda>y. sep @ y) xs)"
  by (induction xs arbitrary: x) simp_all

lemma foldl_push: "foldl (\<lambda>acc row. acc @ [g row]) init rs = init @ map g rs"
  by (induction rs arbitrary: init) simp_all

lemma header_row:
  "join [0x2C] csvHeaders = js ''Star Filter,Page,ID,Author,Rating,Title,Date,Variant,Verified,Review Body''"
  by (simp add: csvHeaders_def js_def)

lemma undouble_other: "a \<noteq> 0x22 \<Longrightarrow> undouble (a # ys) = a # undouble ys"
  by (cases ys) simp_all

lemma replaceAll_Cons: "replaceAll c r (x # s) = (if x = c then r else [x]) @ replaceAll c r s"
  by (simp add: replaceAll_def)

lemma undouble_replaceAll: "undouble (replaceAll 0x22 [0x22, 0x22] s) = s"
proof (induction s)
  case Nil
  show ?case by (simp add: replaceAll_def)
next
  case (Cons x s)
  then show ?case
    by (cases "x = 0x22") (simp_all add: replaceAll_Cons undouble_other)
qed

lemma digitsOf_nonempty: "digitsOf n \<noteq> []"
  by (subst digitsOf.simps) simp

lemma numToString_nonempty: "numToString v \<noteq> []"
  by (cases v) (simp_all add: numToString_def js_def digitsOf_nonempty)

lemma isQuoted_quoteField: "isQuoted (quoteField s)"
  by (simp add: isQuoted_def quoteField_def)

lemma inner_quoteField: "inner (quoteField s) = s"
  by (simp add: inner_def quoteField_def butlast_append)

lemma replaceAll_single: "replaceAll c [d] s = map (\<lambda>x. if x = c then d else x) s"
  by (induction s) (simp_all add: replaceAll_def)

lemma undouble_map_nl:
  "undouble (map (\<lambda>x. if x = 0x0A then 0x20 else x) s) = map (\<lambda>x. if x = 0x0A then 0x20 else x) (undouble s)"
  by (induction s rule: undouble.induct) auto

lemma replaceAll_doubled: "replaceAll 0x22 [0x22, 0x22] s = doubled s"
  by (induction s) (simp_all add: replaceAll_def)

lemma replaceAll_spaced: "replaceAll 0x0A [0x20] s = spaced s"
  by (induction s) (simp_all add: replaceAll_def)

lemma spaced_doubled: "spaced (doubled s) = doubled (spaced s)"
  by (induction s) simp_all

lemma spaced_map: "spaced s = map (\<lambda>c. if c = 0x0A then 0x20 else c) s"
  by (induction s) simp_all

lemma doubled_plain: "0x22 \<notin> set s \<Longrightarrow> doubled s = s"
  by (induction s) simp_all

lemma doubled_length: "length (doubled s) = length s + length (filter (\<lambda>c. c = 0x22) s)"
  by (induction s) simp_all

lemma csvValues_length: "length (csvValues r) = 10"
  by (simp add: csvValues_def)

lemma csv_document:
  "BOM @ join [0x0A] (join [0x2C] csvHeaders # map f rs) =
   [0xFEFF] @ js ''Star Filter,Page,ID,Author,Rating,Title,Date,Variant,Verified,Review Body'' @
     concat (map (\<lambda>r. [0x0A] @ f r) rs)"
  by (simp add: join_Cons header_row BOM_def comp_def del: join.simps)

section \<open>CSV serialisation\<close>

text \<open>
  C5, as the program has it. For every non-empty list of reviews, the text that
  \<open>handleDownloadCSV\<close> returns and the file that \<open>downloadCSV\<close> writes are the same
  document: the byte-order mark U+FEFF, the header row
  \<open>Star Filter,Page,ID,Author,Rating,Title,Date,Variant,Verified,Review Body\<close>, and then
  for each review, in the order of the list, a line feed and the review's ten fields
  joined by commas. In a row the Star Filter, Page and Verified fields are bare (the
  filter label or \<open>N/A\<close>; the page number or \<open>N/A\<close>; \<open>Yes\<close> or \<open>No\<close>) and
  the other seven are wrapped in double quotes. The ID, Author and Title fields are
  exactly the text with every double quote written twice, between two double quotes, so
  that reading the field back gives the text; the Review Body field is the same of the
  body with every line feed turned into a space. The Rating, Date and Variant fields
  are the text between two double quotes whenever the text has no double quote of its
  own.
\<close>

theorem csv_format:
  assumes "rs \<noteq> []" and "chromeSession w = Some s" and "reviews s = rs"
  shows "(let doc = [0xFEFF] @ js ''Star Filter,Page,ID,Author,Rating,Title,Date,Variant,Verified,Review Body'' @
                      concat (map (\<lambda>r. [0x0A] @ join [0x2C] (csvValues r)) rs)
          in handleDownloadCSV w = \<lparr>success = True, csv = Some doc, error = None\<rparr> \<and>
             downloadCSV rs = [DownloadFile doc, Log LogSuccess]) \<and>
         length (csvValues r) = 10 \<and>
         csvValues r ! 0 = orElse (starFilter r) (js ''N/A'') \<and>
         csvValues r ! 1 = (case pageNumber r of None \<Rightarrow> js ''N/A'' | Some n \<Rightarrow> numToString n) \<and>
         csvValues r ! 8 = (if verified r then js ''Yes'' else js ''No'') \<and>
         (\<forall>i \<in> {2, 3, 4, 5, 6, 7, 9}. isQuoted (csvValues r ! i)) \<and>
         undouble (inner (csvValues r ! 2)) = reviewId r \<and>
         undouble (inner (csvValues r ! 3)) = author r \<and>
         undouble (inner (csvValues r ! 5)) = title r \<and>
         undouble (inner (csvValues r ! 9)) = map (\<lambda>c. if c = 0x0A then 0x20 else c) (content r) \<and>
         0x0A \<notin> set (csvValues r ! 9) \<and>
         csvValues r ! 2 = [0x22] @ doubled (reviewId r) @ [0x22] \<and>
         csvValues r ! 3 = [0x22] @ doubled (author r) @ [0x22] \<and>
         csvValues r ! 5 = [0x22] @ doubled (title r) @ [0x22] \<and>
         csvValues r ! 9 = [0x22] @ doubled (spaced (content r)) @ [0x22] \<and>
         (0x22 \<notin> set (starRating r) \<longrightarrow> csvValues r ! 4 = [0x22] @ starRating r @ [0x22]) \<and>
         (0x22 \<notin> set (date r) \<longrightarrow> csvValues r ! 6 = [0x22] @ date r @ [0x22]) \<and>
         (0x22 \<notin> set (variant r) \<longrightarrow> csvValues r ! 7 = [0x22] @ variant r @ [0x22])"
proof -
  have doc: "handleDownloadCSV w = \<lparr>success = True,
      csv = Some ([0xFEFF] @ js ''Star Filter,Page,ID,Author,Rating,Title,Date,Variant,Verified,Review Body'' @
                      concat (map (\<lambda>r. [0x0A] @ join [0x2C] (csvValues r)) rs)), error = None\<rparr>"
    using assms by (simp add: handleDownloadCSV_def csv_document comp_def del: join.simps)
  have dl: "downloadCSV rs = [DownloadFile ([0xFEFF] @ js ''Star Filter,Page,ID,Author,Rating,Title,Date,Variant,Verified,Review Body'' @
                      concat (map (\<lambda>r. [0x0A] @ join [0x2C] (csvValues r)) rs)), Log LogSuccess]"
    using assms(1) by (simp add: downloadCSV_def foldl_push csv_document del: join.simps)
  have page: "csvValues r ! 1 = (case pageNumber r of None \<Rightarrow> js ''N/A'' | Some n \<Rightarrow> numToString n)"
    by (simp add: csvValues_def orElse_def numToString_nonempty split: option.splits)
  have quoted: "\<forall>i \<in> {2, 3, 4, 5, 6, 7, 9}. isQuoted (csvValues r ! i)"
    by (simp add: csvValues_def isQuoted_quoteField)
  have body: "undouble (inner (csvValues r ! 9)) = map (\<lambda>c. if c = 0x0A then 0x20 else c) (content r)"
    by (simp add: csvValues_def inner_quoteField replaceAll_single undouble_map_nl
        undouble_replaceAll)
  have nonl: "0x0A \<notin> set (csvValues r ! 9)"
    by (auto simp add: csvValues_def quoteField_def replaceAll_single)
  have exact: "csvValues r ! 2 = [0x22] @ doubled (reviewId r) @ [0x22] \<and>
         csvValues r ! 3 = [0x22] @ doubled (author r) @ [0x22] \<and>
         csvValues r ! 5 = [0x22] @ doubled (title r) @ [0x22] \<and>
         csvValues r ! 9 = [0x22] @ doubled (spaced (content r)) @ [0x22]"
    by (simp add: csvValues_def quoteField_def replaceAll_doubled replaceAll_spaced spaced_doubled)
  have plain: "csvValues r ! 4 = [0x22] @ starRating r @ [0x22] \<and>
         csvValues r ! 6 = [0x22] @ date r @ [0x22] \<and>
         csvValues r ! 7 = [0x22] @ variant r @ [0x22]"
    by (simp add: csvValues_def quoteField_def)
  have rest: "length (csvValues r) = 10 \<and>
         csvValues r ! 0 = orElse (starFilter r) (js ''N/A'') \<and>
         csvValues r ! 8 = (if verified r then js ''Yes'' else js ''No'') \<and>
         undouble (inner (csvValues r ! 2)) = reviewId r \<and>
         undouble (inner (csvValues r ! 3)) = author r \<and>
         undouble (inner (csvValues r ! 5)) = title r"
    by (simp add: csvValues_def inner_quoteField undouble_replaceAll)
  have docs: "(let doc = [0xFEFF] @ js ''Star Filter,Page,ID,Author,Rating,Title,Date,Variant,Verified,Review Body'' @
                      concat (map (\<lambda>r. [0x0A] @ join [0x2C] (csvValues r)) rs)
          in handleDownloadCSV w = \<lparr>success = True, csv = Some doc, error = None\<rparr> \<and>
             downloadCSV rs = [DownloadFile doc, Log LogSuccess])"
    using doc dl by (simp add: Let_def)
  from docs rest page quoted body nonl exact plain show ?thesis by blast
qed

text \<open>
  The theorem at the example session, whose one review gives the row
  \<open>1*,2,"R1","A""B",""5","Good","1 May 2024","",Yes,"a b"\<close> (with U+2605 for the
  asterisk): the author \<open>A"B\<close> is written \<open>"A""B"\<close>. The rating \<open>N/A\<close> of
  \<open>bareReview\<close> has no double quote and is written \<open>"N/A"\<close>.
\<close>

theorem csv_format_witness:
  "handleDownloadCSV (emptyWorld\<lparr>chromeSession := Some exampleSession\<rparr>) =
     \<lparr>success = True,
      csv = Some ([0xFEFF] @ js ''Star Filter,Page,ID,Author,Rating,Title,Date,Variant,Verified,Review Body'' @
                  [0x0A, 0x31, 0x2605] @
                  js '',2,\"R1\",\"A\"\"B\",\"\"5\",\"Good\",\"1 May 2024\",\"\",Yes,\"a b\"''),
      error = None\<rparr> \<and>
   isQuoted (csvValues exampleReview ! 3) \<and>
   undouble (inner (csvValues exampleReview ! 3)) = [0x41, 0x22, 0x42] \<and>
   csvValues exampleReview ! 3 = [0x22, 0x41, 0x22, 0x22, 0x42, 0x22] \<and>
   csvValues exampleReview ! 9 = [0x22, 0x61, 0x20, 0x62, 0x22] \<and>
   0x22 \<notin> set (date exampleReview) \<and>
   csvValues exampleReview ! 6 = [0x22] @ js ''1 May 2024'' @ [0x22] \<and>
   0x22 \<notin> set (variant exampleReview) \<and>
   csvValues exampleReview ! 7 = [0x22, 0x22] \<and>
   0x22 \<notin> set (starRating bareReview) \<and>
   csvValues bareReview ! 4 = [0x22] @ js ''N/A'' @ [0x22]"
proof -
  have h1: "[exampleReview] \<noteq> []" by simp
  have h2: "chromeSession (emptyWorld\<lparr>chromeSession := Some exampleSession\<rparr>) = Some exampleSession"
    by simp
  have h3: "reviews exampleSession = [exampleReview]"
    by (simp add: exampleSession_def)
  have row: "join [0x2C] (csvValues exampleReview) =
      [0x31, 0x2605] @ js '',2,\"R1\",\"A\"\"B\",\"\"5\",\"Good\",\"1 May 2024\",\"\",Yes,\"a b\"''"
    by (simp add: csvValues_def exampleReview_def orElse_def quoteField_def replaceAll_def
         numToString_def js_def digitsOf.simps)
  have p: "0x22 \<notin> set (date exampleReview) \<and> 0x22 \<notin> set (variant exampleReview) \<and>
      0x22 \<notin> set (starRating bareReview)"
    by (simp add: exampleReview_def bareReview_def js_def)
  have v: "doubled (author exampleReview) = [0x41, 0x22, 0x22, 0x42] \<and>
      doubled (spaced (content exampleReview)) = [0x61, 0x20, 0x62] \<and>
      date exampleReview = js ''1 May 2024'' \<and> variant exampleReview = [] \<and>
      starRating bareReview = js ''N/A''"
    by (simp add: exampleReview_def bareReview_def)
  note T1 = csv_format [OF h1 h2 h3, of exampleReview]
  note T2 = csv_format [OF h1 h2 h3, of bareReview]
  have a: "handleDownloadCSV (emptyWorld\<lparr>chromeSession := Some exampleSession\<rparr>) =
     \<lparr>success = True,
      csv = Some ([0xFEFF] @ js ''Star Filter,Page,ID,Author,Rating,Title,Date,Variant,Verified,Review Body'' @
                  [0x0A, 0x31, 0x2605] @
                  js '',2,\"R1\",\"A\"\"B\",\"\"5\",\"Good\",\"1 May 2024\",\"\",Yes,\"a b\"''),
      error = None\<rparr>"
    using T1 [THEN conjunct1] row by (simp add: Let_def)
  from T1 have "\<forall>i \<in> {2, 3, 4, 5, 6, 7, 9}. isQuoted (csvValues exampleReview ! i)"
    by blast
  then have b1: "isQuoted (csvValues exampleReview ! 3)" by simp
  from T1 have "undouble (inner (csvValues exampleReview ! 3)) = author exampleReview"
    by blast
  then have b2: "undouble (inner (csvValues exampleReview ! 3)) = [0x41, 0x22, 0x42]"
    by (simp add: exampleReview_def)
  from T1 have "csvValues exampleReview ! 3 = [0x22] @ doubled (author exampleReview) @ [0x22]"
    by blast
  with v have c1: "csvValues exampleReview ! 3 = [0x22, 0x41, 0x22, 0x22, 0x42, 0x22]"
    by simp
  from T1 have "csvValues exampleReview ! 9 = [0x22] @ doubled (spaced (content exampleReview)) @ [0x22]"
    by blast
  with v have c2: "csvValues exampleReview ! 9 = [0x22, 0x61, 0x20, 0x62, 0x22]"
    by simp
  from T1 p have "csvValues exampleReview ! 6 = [0x22] @ date exampleReview @ [0x22]"
    by blast
  with v have c3: "csvValues exampleReview ! 6 = [0x22] @ js ''1 May 2024'' @ [0x22]"
    by simp
  from T1 p have "csvValues exampleReview ! 7 = [0x22] @ variant exampleReview @ [0x22]"
    by blast
  with v have c4: "csvValues exampleReview ! 7 = [0x22, 0x22]"
    by simp
  from T2 p have "csvValues bareReview ! 4 = [0x22] @ starRating bareReview @ [0x22]"
    by blast
  with v have d: "csvValues bareReview ! 4 = [0x22] @ js ''N/A'' @ [0x22]"
    by simp
  from a b1 b2 c1 c2 c3 c4 d p show ?thesis by blast
qed

text \<open>
  Against C5 as the specification states it: the Star Filter field of the example
  review is the bare label, not a quoted field; its Rating field is the rating between
  two quotes with the rating's own quote left single; and for the empty list
  \<open>downloadCSV\<close> writes no file at all.
\<close>

theorem csv_format_counterexample:
  "csvValues exampleReview ! 0 = [0x31, 0x2605] \<and>
   \<not> isQuoted (csvValues exampleReview ! 0) \<and>
   csvValues exampleReview ! 4 = [0x22, 0x22, 0x35, 0x22] \<and>
   inner (csvValues exampleReview ! 4) = [0x22, 0x35] \<and>
   downloadCSV [] = [Log LogError]"
  by (simp add: csvValues_def exampleReview_def orElse_def isQuoted_def quoteField_def inner_def
      downloadCSV_def)

section \<open>The export handler without reviews\<close>

text \<open>
  C10. When \<open>chrome.storage.local\<close> holds no session, or one with no review, the
  export handler answers \<open>success = false\<close> with the error \<open>No reviews to export\<close>
  and no \<open>csv\<close>; it always returns a response. Whatever the fast tier
  (\<open>localStorage\<close>) holds makes no difference to the answer.
\<close>

theorem handleDownloadCSV_no_reviews:
  assumes "chromeSession w = None \<or> (\<exists>s. chromeSession w = Some s \<and> reviews s = [])"
  shows "handleDownloadCSV w = \<lparr>success = False, csv = None, error = Some (js ''No reviews to export'')\<rparr> \<and>
         handleDownloadCSV (w\<lparr>localStorage := fast\<rparr>) = handleDownloadCSV w"
  using assms by (auto simp add: handleDownloadCSV_def)

text \<open>
  The theorem where the durable tier is empty while the fast tier holds a session with
  a review, and where the durable tier holds a session without reviews.
\<close>

theorem handleDownloadCSV_no_reviews_witness:
  "handleDownloadCSV (emptyWorld\<lparr>localStorage := Some exampleSession\<rparr>) =
     \<lparr>success = False, csv = None, error = Some (js ''No reviews to export'')\<rparr> \<and>
   handleDownloadCSV (emptyWorld\<lparr>chromeSession := Some (exampleSession\<lparr>reviews := []\<rparr>)\<rparr>) =
     \<lparr>success = False, csv = None, error = Some (js ''No reviews to export'')\<rparr>"
proof -
  have h1: "chromeSession emptyWorld = None \<or> (\<exists>s. chromeSession emptyWorld = Some s \<and> reviews s = [])"
    by (simp add: emptyWorld_def)
  have h2: "chromeSession (emptyWorld\<lparr>chromeSession := Some (exampleSession\<lparr>reviews := []\<rparr>)\<rparr>) = None \<or>
     (\<exists>s. chromeSession (emptyWorld\<lparr>chromeSession := Some (exampleSession\<lparr>reviews := []\<rparr>)\<rparr>) = Some s \<and> reviews s = [])"
    by simp
  show ?thesis
    using handleDownloadCSV_no_reviews [OF h1, of "Some exampleSession"]
          handleDownloadCSV_no_reviews [OF h2, of None]
    by simp
qed

section \<open>Every stored review has a body\<close>

lemma cardReview_content:
  "cardReview t f p i c = Inr (Some r) \<Longrightarrow> length (content r) > 0"
  by (auto simp add: cardReview_def Let_def split: if_splits)

lemma extractFrom_content:
  "r \<in> set (fst (extractFrom t f p i cs)) \<Longrightarrow> length (content r) > 0"
proof (induction cs arbitrary: i)
  case Nil
  then show ?case by simp
next
  case (Cons c cs)
  then show ?case
    by (auto simp add: case_prod_unfold Let_def dest: cardReview_content split: sum.splits
        option.splits)
qed

lemma extractReviews_content:
  "r \<in> set (fst (extractReviews t pg f p)) \<Longrightarrow> length (content r) > 0"
  by (auto simp add: extractReviews_def case_prod_unfold Let_def dest: extractFrom_content)

lemma extractFrom_effects: "list_all storesNonEmptyBodies (snd (extractFrom t f p i cs))"
  by (induction cs arbitrary: i) (auto simp add: case_prod_unfold Let_def split: sum.splits
      option.splits)

lemma extractReviews_effects: "list_all storesNonEmptyBodies (snd (extractReviews t pg f p))"
  by (simp add: extractReviews_def case_prod_unfold Let_def extractFrom_effects)

lemma clickStarFilter_effects: "list_all storesNonEmptyBodies (snd (clickStarFilter pg f))"
  by (simp add: clickStarFilter_def split: option.splits)

lemma downloadCSV_effects: "list_all storesNonEmptyBodies (downloadCSV rs)"
  by (simp add: downloadCSV_def Let_def)

lemma clickNextPage_effects: "list_all storesNonEmptyBodies (snd (clickNextPage pg))"
  by (simp add: clickNextPage_def)

lemma validateFilter_effects: "list_all storesNonEmptyBodies (snd (validateFilter env s))"
  using clickStarFilter_effects [of "page env" "nthOpt STAR_FILTERS (currentStarIndex s)"]
  by (simp add: validateFilter_def Let_def case_prod_unfold)

lemma saveSession_ok:
  assumes "bodiesNonEmpty s" and "saveSession t s w = (s', w', es)"
  shows "bodiesNonEmpty s' \<and> storedBodiesNonEmpty w' \<and> list_all storesNonEmptyBodies es"
  using assms
  by (auto simp add: saveSession_def Let_def bodiesNonEmpty_def storedBodiesNonEmpty_def)

lemma switchToNextFilter_ok:
  assumes "bodiesNonEmpty s" and "storedBodiesNonEmpty w" and "switchToNextFilter env s w = (s', w', es)"
  shows "bodiesNonEmpty s' \<and> storedBodiesNonEmpty w' \<and> list_all storesNonEmptyBodies es"
proof -
  let ?s1 = "s\<lparr>currentStarIndex := Suc (currentStarIndex s), currentPage := Num 1\<rparr>"
  have s1: "bodiesNonEmpty ?s1" using assms(1) by (simp add: bodiesNonEmpty_def)
  show ?thesis
  proof (cases "length STAR_FILTERS \<le> Suc (currentStarIndex s)")
    case True
    with assms s1 downloadCSV_effects [of "reviews s"] show ?thesis
      by (auto simp add: switchToNextFilter_def clearSession_def Let_def storedBodiesNonEmpty_def)
  next
    case False
    obtain s2 w2 es2 where sv: "saveSession (now env) ?s1 w = (s2, w2, es2)"
      by (cases "saveSession (now env) ?s1 w") auto
    note a = saveSession_ok [OF s1 sv]
    obtain s3 w3 es3 where sv2: "saveSession (now env) (s2\<lparr>isActive := False\<rparr>) w2 = (s3, w3, es3)"
      by (cases "saveSession (now env) (s2\<lparr>isActive := False\<rparr>) w2") auto
    have "bodiesNonEmpty (s2\<lparr>isActive := False\<rparr>)" using a by (simp add: bodiesNonEmpty_def)
    note b = saveSession_ok [OF this sv2]
    have w3: "storedBodiesNonEmpty (w3\<lparr>isScanning := False\<rparr>)"
      using b by (simp add: storedBodiesNonEmpty_def)
    from False assms(3) sv sv2 a b w3
         clickStarFilter_effects [of "pageAtSwitch env" "nthOpt STAR_FILTERS (Suc (currentStarIndex s))"]
    show ?thesis
      by (auto simp add: switchToNextFilter_def Let_def case_prod_unfold split: if_splits)
  qed
qed

lemma extractAndSave_ok:
  assumes "bodiesNonEmpty s" and "storedBodiesNonEmpty w" and "extractAndSave env s w = (s', w', es)"
  shows "bodiesNonEmpty s' \<and> storedBodiesNonEmpty w' \<and> list_all storesNonEmptyBodies es"
proof -
  let ?found = "fst (extractReviews (now env) (page env) (nthOpt STAR_FILTERS (currentStarIndex s)) (getCurrentPageNumber (page env)))"
  let ?s1 = "s\<lparr>reviews := reviews s @ ?found, currentPage := getCurrentPageNumber (page env)\<rparr>"
  have s1: "bodiesNonEmpty ?s1"
    using assms(1) by (auto simp add: bodiesNonEmpty_def dest: extractReviews_content)
  obtain s2 w2 es2 where sv: "saveSession (now env) ?s1 w = (s2, w2, es2)"
    by (cases "saveSession (now env) ?s1 w") auto
  from assms sv saveSession_ok [OF s1 sv]
       extractReviews_effects [of "now env" "page env" "nthOpt STAR_FILTERS (currentStarIndex s)" "getCurrentPageNumber (page env)"]
  show ?thesis
    by (auto simp add: extractAndSave_def Let_def case_prod_unfold split: if_splits)
qed

lemma paginate_ok:
  assumes "bodiesNonEmpty s" and "storedBodiesNonEmpty w" and "paginate env s w = (s', w', es)"
  shows "bodiesNonEmpty s' \<and> storedBodiesNonEmpty w' \<and> list_all storesNonEmptyBodies es"
proof -
  obtain s1 w1 es1 where sw: "switchToNextFilter env s w = (s1, w1, es1)"
    by (cases "switchToNextFilter env s w") auto
  from switchToNextFilter_ok [OF assms(1,2) sw] assms sw clickNextPage_effects [of "pageAtClick env"]
  show ?thesis
    by (auto simp add: paginate_def Let_def case_prod_unfold split: if_splits)
qed

lemma scrapeCurrentPage_ok:
  assumes "bodiesNonEmpty s" and "storedBodiesNonEmpty w" and "scrapeCurrentPage env s w = (s', w', es)"
  shows "bodiesNonEmpty s' \<and> storedBodiesNonEmpty w' \<and> list_all storesNonEmptyBodies es"
proof -
  obtain s1 w1 es1 where a: "extractAndSave env s w = (s1, w1, es1)"
    by (cases "extractAndSave env s w") auto
  obtain s2 w2 es2 where b: "paginate env s1 w1 = (s2, w2, es2)"
    by (cases "paginate env s1 w1") auto
  note a' = extractAndSave_ok [OF assms(1,2) a]
  from a' have "bodiesNonEmpty s1" "storedBodiesNonEmpty w1" by auto
  from paginate_ok [OF this b] a' assms a b validateFilter_effects [of env s] show ?thesis
    by (auto simp add: scrapeCurrentPage_def Let_def case_prod_unfold split: if_splits)
qed

lemma getOrCreateSession_ok:
  "storedBodiesNonEmpty w \<Longrightarrow>
   bodiesNonEmpty (fst (getOrCreateSession env (w\<lparr>isProcessing := b\<rparr>))) \<and>
   list_all storesNonEmptyBodies (snd (getOrCreateSession env (w\<lparr>isProcessing := b\<rparr>)))"
  by (auto simp add: getOrCreateSession_def loadSessionFromLocalStorage_def storedBodiesNonEmpty_def
        bodiesNonEmpty_def split: option.splits)

lemma checkProductPageRedirect_effects: "list_all storesNonEmptyBodies (snd (checkProductPageRedirect pg))"
  by (simp add: checkProductPageRedirect_def split: option.splits)

lemma storedBodiesNonEmpty_globals [simp]:
  "storedBodiesNonEmpty (w\<lparr>isProcessing := b\<rparr>) = storedBodiesNonEmpty w"
  "storedBodiesNonEmpty (w\<lparr>lastProcessedUrl := u\<rparr>) = storedBodiesNonEmpty w"
  by (simp_all add: storedBodiesNonEmpty_def)

lemma bodiesNonEmpty_lastUrl [simp]: "bodiesNonEmpty (s\<lparr>lastUrl := u\<rparr>) = bodiesNonEmpty s"
  by (simp add: bodiesNonEmpty_def)

lemma mainController_ok:
  assumes "storedBodiesNonEmpty w"
  shows "storedBodiesNonEmpty (fst (mainController env w)) \<and>
         list_all storesNonEmptyBodies (snd (mainController env w))"
proof -
  let ?s = "fst (getOrCreateSession env (w\<lparr>isProcessing := True\<rparr>))"
  let ?w1 = "w\<lparr>isProcessing := True, lastProcessedUrl := href (page env)\<rparr>"
  obtain s' w' es where sc: "scrapeCurrentPage env (?s\<lparr>lastUrl := href (page env)\<rparr>) ?w1 = (s', w', es)"
    by (cases "scrapeCurrentPage env (?s\<lparr>lastUrl := href (page env)\<rparr>) ?w1") auto
  note g = getOrCreateSession_ok [OF assms, of env True]
  have "bodiesNonEmpty (?s\<lparr>lastUrl := href (page env)\<rparr>)"
    using g by simp
  moreover have "storedBodiesNonEmpty ?w1" using assms by simp
  ultimately have "storedBodiesNonEmpty w' \<and> list_all storesNonEmptyBodies es"
    using scrapeCurrentPage_ok [OF _ _ sc] by simp
  with assms sc g checkProductPageRedirect_effects [of "page env"] show ?thesis
    by (auto simp add: mainController_def Let_def case_prod_unfold)
qed

lemma ticks_ok:
  "storedBodiesNonEmpty w \<Longrightarrow>
   storedBodiesNonEmpty (fst (ticks envs w)) \<and> list_all storesNonEmptyBodies (snd (ticks envs w))"
proof (induction envs arbitrary: w)
  case Nil
  then show ?case by simp
next
  case (Cons env envs)
  from mainController_ok [OF Cons.prems, of env] Cons.IH [of "fst (mainController env w)"]
  show ?case by (simp add: case_prod_unfold Let_def)
qed

text \<open>
  C2. Every review that \<open>extractReviews\<close> returns has a non-empty body: a card whose
  body is empty after trimming yields no review at all. Hence, from a world whose stored
  sessions hold only reviews with a body (an empty store is one), any run of ticks leads
  to such a world again, and every session written on the way holds only reviews with a
  body.
\<close>

theorem body_text_nonempty:
  "(\<forall>r \<in> set (fst (extractReviews t pg f p)). length (content r) > 0) \<and>
   (storedBodiesNonEmpty w \<longrightarrow>
      storedBodiesNonEmpty (fst (ticks envs w)) \<and> list_all storesNonEmptyBodies (snd (ticks envs w)))"
  using extractReviews_content [of _ t pg f p] ticks_ok [of w envs] by blast

text \<open>
  The theorem on the example page, from an empty store with the start flag set: the
  four cards give two reviews, and the tick stores them.
\<close>

theorem body_text_nonempty_witness:
  "map content (fst (extractReviews 5000 listingPage (Some one_star) (Num 2))) = [js ''Great'', js ''Works''] \<and>
   storedBodiesNonEmpty (emptyWorld\<lparr>isScanning := True\<rparr>) \<and>
   map_option (map content \<circ> reviews) (localStorage (fst (ticks [exampleEnv] (emptyWorld\<lparr>isScanning := True\<rparr>)))) =
     Some [js ''Great'', js ''Works''] \<and>
   storedBodiesNonEmpty (fst (ticks [exampleEnv] (emptyWorld\<lparr>isScanning := True\<rparr>)))"
proof -
  have h: "storedBodiesNonEmpty (emptyWorld\<lparr>isScanning := True\<rparr>)"
    by (simp add: storedBodiesNonEmpty_def emptyWorld_def)
  have e1: "map content (fst (extractReviews 5000 listingPage (Some one_star) (Num 2))) = [js ''Great'', js ''Works'']"
    by (simp add: eval_defs bareCard_def brokenCard_def blankCard_def fullCard_def listingPage_def)
  have e2: "map_option (map content \<circ> reviews) (localStorage (fst (ticks [exampleEnv] (emptyWorld\<lparr>isScanning := True\<rparr>)))) =
     Some [js ''Great'', js ''Works'']"
    by (simp add: eval_defs bareCard_def brokenCard_def blankCard_def fullCard_def
        listingPage_def nextPage_def exampleEnv_def emptyWorld_def)
  show ?thesis
    using body_text_nonempty [of 5000 listingPage "Some one_star" "Num 2" "emptyWorld\<lparr>isScanning := True\<rparr>" "[exampleEnv]"]
          h e1 e2
    by simp
qed

section \<open>Fallbacks of the extraction\<close>

lemma extractFrom_append:
  "extractFrom t f p i (xs @ ys) =
     (fst (extractFrom t f p i xs) @ fst (extractFrom t f p (i + length xs) ys),
      snd (extractFrom t f p i xs) @ snd (extractFrom t f p (i + length xs) ys))"
  by (induction xs arbitrary: i) (auto simp add: case_prod_unfold Let_def split: sum.splits
      option.splits)

lemma extractFrom_raises:
  "raises c \<Longrightarrow> extractFrom t f p i (c # ys) =
     (fst (extractFrom t f p (Suc i) ys), Log LogWarn # snd (extractFrom t f p (Suc i) ys))"
  by (simp add: cardReview_def case_prod_unfold Let_def)

text \<open>
  C6, as the program has it. In a review extracted from a card, a missing author is
  \<open>Anonymous\<close>, a missing rating is \<open>N/A\<close>, and a missing title, date or variant
  is the empty string, each on its own; a card that does not throw and has a body gives
  a review whatever else is missing. A card whose processing throws is skipped with a
  warning: the cards before it and after it give the reviews and the effects they give
  without it.
\<close>

theorem extraction_fallbacks:
  "(cardReview t f p i c = Inr (Some r) \<longrightarrow>
      (missing (profileName c) \<longrightarrow> author r = js ''Anonymous'') \<and>
      (missing (ratingAlt c) \<longrightarrow> starRating r = js ''N/A'') \<and>
      (missing (titleSpan c) \<longrightarrow> title r = []) \<and>
      (missing (reviewDate c) \<longrightarrow> date r = []) \<and>
      (missing (formatStrip c) \<longrightarrow> variant r = [])) \<and>
   (\<not> raises c \<and> \<not> missing (reviewBody c) \<longrightarrow> (\<exists>r'. cardReview t f p i c = Inr (Some r'))) \<and>
   (raises c \<longrightarrow>
      fst (extractFrom t f p i (xs @ c # ys)) =
        fst (extractFrom t f p i xs) @ fst (extractFrom t f p (Suc (i + length xs)) ys) \<and>
      snd (extractFrom t f p i (xs @ c # ys)) =
        snd (extractFrom t f p i xs) @ Log LogWarn # snd (extractFrom t f p (Suc (i + length xs)) ys))"
proof -
  have a: "cardReview t f p i c = Inr (Some r) \<Longrightarrow>
      (missing (profileName c) \<longrightarrow> author r = js ''Anonymous'') \<and>
      (missing (ratingAlt c) \<longrightarrow> starRating r = js ''N/A'') \<and>
      (missing (titleSpan c) \<longrightarrow> title r = []) \<and>
      (missing (reviewDate c) \<longrightarrow> date r = []) \<and>
      (missing (formatStrip c) \<longrightarrow> variant r = [])"
    by (auto simp add: cardReview_def Let_def missing_def orElse_def innerTextTrim_def
          split: if_splits option.splits)
  have b: "\<not> raises c \<and> \<not> missing (reviewBody c) \<Longrightarrow> \<exists>r'. cardReview t f p i c = Inr (Some r')"
    by (auto simp add: cardReview_def Let_def missing_def orElse_def innerTextTrim_def
          split: option.splits)
  have c: "raises c \<Longrightarrow>
      fst (extractFrom t f p i (xs @ c # ys)) =
        fst (extractFrom t f p i xs) @ fst (extractFrom t f p (Suc (i + length xs)) ys) \<and>
      snd (extractFrom t f p i (xs @ c # ys)) =
        snd (extractFrom t f p i xs) @ Log LogWarn # snd (extractFrom t f p (Suc (i + length xs)) ys)"
    by (simp add: extractFrom_append [of t f p i xs "c # ys"] extractFrom_raises del:
        extractFrom.simps)
  from a b c show ?thesis by blast
qed

text \<open>
  The theorem on the example cards: the card with only a body gives the review
  \<open>bareReview\<close>, and the throwing card between it and the others is skipped.
\<close>

theorem extraction_fallbacks_witness:
  "cardReview 5000 (Some one_star) (Num 2) 0 bareCard = Inr (Some bareReview) \<and>
   missing (profileName bareCard) \<and> author bareReview = js ''Anonymous'' \<and>
   missing (ratingAlt bareCard) \<and> starRating bareReview = js ''N/A'' \<and>
   missing (titleSpan bareCard) \<and> title bareReview = [] \<and>
   missing (reviewDate bareCard) \<and> date bareReview = [] \<and>
   missing (formatStrip bareCard) \<and> variant bareReview = [] \<and>
   raises brokenCard \<and>
   map reviewId (fst (extractFrom 5000 (Some one_star) (Num 2) 0 ([bareCard] @ brokenCard # [blankCard, fullCard]))) =
     [js ''review-5000-0'', js ''R2'']"
proof -
  have h1: "cardReview 5000 (Some one_star) (Num 2) 0 bareCard = Inr (Some bareReview)"
    by (simp add: eval_defs bareCard_def bareReview_def numToString_def digitsOf.simps)
  have h2: "missing (profileName bareCard) \<and> missing (ratingAlt bareCard) \<and> missing (titleSpan bareCard) \<and>
     missing (reviewDate bareCard) \<and> missing (formatStrip bareCard)"
    by (simp add: missing_def bareCard_def)
  have h3: "raises brokenCard" by (simp add: brokenCard_def)
  have e: "map reviewId (fst (extractFrom 5000 (Some one_star) (Num 2) 0 [bareCard]) @
       fst (extractFrom 5000 (Some one_star) (Num 2) (Suc (0 + length [bareCard])) [blankCard, fullCard])) =
     [js ''review-5000-0'', js ''R2'']"
    by (simp add: eval_defs bareCard_def blankCard_def fullCard_def numToString_def digitsOf.simps)
  show ?thesis
    using extraction_fallbacks [of 5000 "Some one_star" "Num 2" 0 bareCard bareReview "[]" "[]"]
          extraction_fallbacks [of 5000 "Some one_star" "Num 2" 0 brokenCard bareReview "[bareCard]" "[blankCard, fullCard]"]
          h1 h2 h3 e
    by simp
qed

text \<open>
  Against C6 as the specification states it: the card without a rating element gives
  a review whose rating is \<open>N/A\<close>, not the empty string.
\<close>

theorem extraction_fallbacks_counterexample:
  "cardReview 5000 (Some one_star) (Num 2) 0 bareCard = Inr (Some bareReview) \<and>
   ratingAlt bareCard = None \<and>
   starRating bareReview = [0x4E, 0x2F, 0x41] \<and>
   starRating bareReview \<noteq> []"
  by (simp add: eval_defs bareCard_def bareReview_def numToString_def digitsOf.simps)

section \<open>The extraction step of a tick\<close>

lemma extractFrom_warns: "set (snd (extractFrom t f p i cs)) \<subseteq> {Log LogWarn}"
  by (induction cs arbitrary: i) (auto simp add: case_prod_unfold Let_def split: sum.splits
      option.splits)

lemma extractReviews_logs: "set (snd (extractReviews t pg f p)) \<subseteq> {Log LogInfo, Log LogWarn}"
  using extractFrom_warns [of t f p 0 "cards pg"]
  by (auto simp add: extractReviews_def case_prod_unfold Let_def)

lemma logs_no_write: "set es \<subseteq> {Log LogInfo, Log LogWarn} \<Longrightarrow> filter sessionWrite es = []"
  by (induction es) auto

lemma saveSession_eq:
  "saveSession t s w = (s\<lparr>lastUpdated := t\<rparr>,
     w\<lparr>localStorage := Some (s\<lparr>lastUpdated := t\<rparr>), chromeSession := Some (s\<lparr>lastUpdated := t\<rparr>)\<rparr>,
     [LocalStorageSet (s\<lparr>lastUpdated := t\<rparr>), ChromeStorageSet (s\<lparr>lastUpdated := t\<rparr>)])"
  by (simp add: saveSession_def Let_def)

lemma switchToNextFilter_reviews: "reviews (fst (switchToNextFilter env s w)) = reviews s"
  by (simp add: switchToNextFilter_def saveSession_eq Let_def case_prod_unfold)

lemma paginate_reviews: "reviews (fst (paginate env s w)) = reviews s"
  by (simp add: paginate_def Let_def case_prod_unfold switchToNextFilter_reviews)

lemma extractAndSave_reviews:
  "reviews (fst (extractAndSave env s w)) =
     reviews s @ fst (extractReviews (now env) (page env) (nthOpt STAR_FILTERS (currentStarIndex s)) (getCurrentPageNumber (page env)))"
  by (simp add: extractAndSave_def saveSession_eq Let_def case_prod_unfold)

text \<open>
  C3, as the program has it. \<open>extractAndSave\<close> is the extraction step. When the
  extraction returns at least one review, the step appends the reviews to the session,
  sets \<open>currentPage\<close> to the page number read from the address, stamps the session and
  writes it to both storage tiers; these are the step's only writes. When the
  extraction returns no review, the step leaves the session and both tiers as they
  were, writes nothing, and logs a warning and no error. A call of
  \<open>scrapeCurrentPage\<close> that reaches the step ends with the session's reviews extended
  by what the extraction returned.
\<close>

theorem extraction_step:
  "(let pageNum = getCurrentPageNumber (page env);
        found = fst (extractReviews (now env) (page env) (nthOpt STAR_FILTERS (currentStarIndex session)) pageNum);
        stored = session\<lparr>reviews := reviews session @ found, currentPage := pageNum, lastUpdated := now env\<rparr>
    in (found \<noteq> [] \<longrightarrow>
          fst (extractAndSave env session w) = stored \<and>
          fst (snd (extractAndSave env session w)) = w\<lparr>localStorage := Some stored, chromeSession := Some stored\<rparr> \<and>
          filter sessionWrite (snd (snd (extractAndSave env session w))) = [LocalStorageSet stored, ChromeStorageSet stored]) \<and>
       (found = [] \<longrightarrow>
          fst (extractAndSave env session w) = session \<and>
          fst (snd (extractAndSave env session w)) = w \<and>
          filter sessionWrite (snd (snd (extractAndSave env session w))) = [] \<and>
          Log LogWarn \<in> set (snd (snd (extractAndSave env session w))) \<and>
          Log LogError \<notin> set (snd (snd (extractAndSave env session w)))) \<and>
       (\<not> fst (validateFilter env session) \<longrightarrow>
          reviews (fst (scrapeCurrentPage env session w)) = reviews session @ found))"
proof -
  let ?pn = "getCurrentPageNumber (page env)"
  let ?ex = "extractReviews (now env) (page env) (nthOpt STAR_FILTERS (currentStarIndex session)) ?pn"
  note lg = extractReviews_logs [of "now env" "page env" "nthOpt STAR_FILTERS (currentStarIndex session)" ?pn]
  have nw: "filter sessionWrite (snd ?ex) = []" using lg by (rule logs_no_write)
  have ne: "Log LogError \<notin> set (snd ?ex)" using lg by auto
  have a: "fst ?ex \<noteq> [] \<Longrightarrow>
      extractAndSave env session w =
        (session\<lparr>reviews := reviews session @ fst ?ex, currentPage := ?pn, lastUpdated := now env\<rparr>,
         w\<lparr>localStorage := Some (session\<lparr>reviews := reviews session @ fst ?ex, currentPage := ?pn, lastUpdated := now env\<rparr>),
           chromeSession := Some (session\<lparr>reviews := reviews session @ fst ?ex, currentPage := ?pn, lastUpdated := now env\<rparr>)\<rparr>,
         snd ?ex @ [LocalStorageSet (session\<lparr>reviews := reviews session @ fst ?ex, currentPage := ?pn, lastUpdated := now env\<rparr>),
                    ChromeStorageSet (session\<lparr>reviews := reviews session @ fst ?ex, currentPage := ?pn, lastUpdated := now env\<rparr>),
                    Log LogSuccess,
                    SendMessage (REVIEWS_UPDATE (length (reviews session) + length (fst ?ex))
                      (map_option STAR_LABELS (nthOpt STAR_FILTERS (currentStarIndex session))) ?pn)])"
    by (simp add: extractAndSave_def saveSession_eq Let_def case_prod_unfold)
  have b: "fst ?ex = [] \<Longrightarrow> extractAndSave env session w = (session, w, snd ?ex @ [Log LogWarn])"
    by (simp add: extractAndSave_def Let_def case_prod_unfold)
  have c: "\<not> fst (validateFilter env session) \<Longrightarrow>
      reviews (fst (scrapeCurrentPage env session w)) = reviews session @ fst ?ex"
    by (simp add: scrapeCurrentPage_def Let_def case_prod_unfold paginate_reviews
        extractAndSave_reviews)
  show ?thesis
    unfolding Let_def
  proof (intro conjI impI)
    assume f: "fst ?ex \<noteq> []"
    show "fst (extractAndSave env session w) =
        session\<lparr>reviews := reviews session @ fst ?ex, currentPage := ?pn, lastUpdated := now env\<rparr>"
      using a [OF f] by simp
    show "fst (snd (extractAndSave env session w)) =
        w\<lparr>localStorage := Some (session\<lparr>reviews := reviews session @ fst ?ex, currentPage := ?pn, lastUpdated := now env\<rparr>),
          chromeSession := Some (session\<lparr>reviews := reviews session @ fst ?ex, currentPage := ?pn, lastUpdated := now env\<rparr>)\<rparr>"
      using a [OF f] by simp
    show "filter sessionWrite (snd (snd (extractAndSave env session w))) =
        [LocalStorageSet (session\<lparr>reviews := reviews session @ fst ?ex, currentPage := ?pn, lastUpdated := now env\<rparr>),
         ChromeStorageSet (session\<lparr>reviews := reviews session @ fst ?ex, currentPage := ?pn, lastUpdated := now env\<rparr>)]"
      using a [OF f] nw by simp
  next
    assume f: "fst ?ex = []"
    show "fst (extractAndSave env session w) = session" using b [OF f] by simp
    show "fst (snd (extractAndSave env session w)) = w" using b [OF f] by simp
    show "filter sessionWrite (snd (snd (extractAndSave env session w))) = []" using b [OF f] nw by simp
    show "Log LogWarn \<in> set (snd (snd (extractAndSave env session w)))" using b [OF f] by simp
    show "Log LogError \<notin> set (snd (snd (extractAndSave env session w)))" using b [OF f] ne by simp
  next
    assume "\<not> fst (validateFilter env session)"
    then show "reviews (fst (scrapeCurrentPage env session w)) = reviews session @ fst ?ex" by (rule c)
  qed
qed

text \<open>
  The theorem on the example page (two reviews found, stored under page 2) and on the
  page whose only card is blank (nothing found, session unchanged).
\<close>

theorem extraction_step_witness:
  "fst (extractReviews 5000 listingPage (Some one_star) (Num 2)) \<noteq> [] \<and>
   currentPage (fst (extractAndSave exampleEnv freshSession startWorld)) = Num 2 \<and>
   localStorage (fst (snd (extractAndSave exampleEnv freshSession startWorld))) =
     Some (fst (extractAndSave exampleEnv freshSession startWorld)) \<and>
   fst (extractReviews 5000 blankPage (Some one_star) (Num 2)) = [] \<and>
   fst (extractAndSave blankEnv freshSession startWorld) = freshSession \<and>
   \<not> fst (validateFilter exampleEnv freshSession) \<and>
   length (reviews (fst (scrapeCurrentPage exampleEnv freshSession startWorld))) = 2"
proof -
  have f1: "map reviewId (fst (extractReviews 5000 listingPage (Some one_star) (Num 2))) = [js ''review-5000-0'', js ''R2'']"
    by (simp add: eval_defs bareCard_def brokenCard_def blankCard_def fullCard_def
        listingPage_def numToString_def digitsOf.simps)
  have f2: "fst (extractReviews 5000 blankPage (Some one_star) (Num 2)) = []"
    by (simp add: eval_defs bareCard_def brokenCard_def blankCard_def fullCard_def
        listingPage_def blankPage_def)
  have v: "\<not> fst (validateFilter exampleEnv freshSession)"
    by (simp add: eval_defs bareCard_def brokenCard_def blankCard_def fullCard_def
        listingPage_def nextPage_def exampleEnv_def freshSession_def)
  have e: "now exampleEnv = 5000 \<and> page exampleEnv = listingPage \<and> now blankEnv = 5000 \<and> page blankEnv = blankPage \<and>
      currentStarIndex freshSession = 0 \<and> reviews freshSession = [] \<and>
      nthOpt STAR_FILTERS 0 = Some one_star \<and>
      getCurrentPageNumber listingPage = Num 2 \<and> getCurrentPageNumber blankPage = Num 2"
    by (simp add: eval_defs bareCard_def brokenCard_def blankCard_def fullCard_def
        listingPage_def nextPage_def exampleEnv_def blankPage_def freshSession_def blankEnv_def)
  from f1 have f1': "fst (extractReviews 5000 listingPage (Some one_star) (Num 2)) \<noteq> []"
    by auto
  from f1 have f1'': "length (fst (extractReviews 5000 listingPage (Some one_star) (Num 2))) = 2"
    using length_map [of reviewId "fst (extractReviews 5000 listingPage (Some one_star) (Num 2))"] by simp
  show ?thesis
    using extraction_step [of exampleEnv freshSession startWorld]
          extraction_step [of blankEnv freshSession startWorld]
          f1' f1'' f2 v e
    by (simp add: Let_def)
qed

text \<open>
  Against C3 as the specification states it. On page 2 of the first filter, with one
  blank card and a next-page control that works, the call reaches the extraction, which
  returns nothing; at the end of the call \<open>currentPage\<close> is still 1, the stored world
  is as it was, and no effect of the whole call wrote the session.
\<close>

theorem extraction_step_counterexample:
  "getCurrentPageNumber (page blankEnv) = Num 2 \<and>
   \<not> fst (validateFilter blankEnv freshSession) \<and>
   fst (extractReviews (now blankEnv) (page blankEnv) (Some one_star) (Num 2)) = [] \<and>
   currentPage (fst (scrapeCurrentPage blankEnv freshSession startWorld)) = Num 1 \<and>
   fst (snd (scrapeCurrentPage blankEnv freshSession startWorld)) = startWorld \<and>
   filter sessionWrite (snd (snd (scrapeCurrentPage blankEnv freshSession startWorld))) = []"
  by (simp add: eval_defs bareCard_def brokenCard_def blankCard_def fullCard_def listingPage_def
      nextPage_def exampleEnv_def emptyWorld_def blankPage_def freshSession_def startWorld_def
      blankEnv_def)

section \<open>Activating the expected filter\<close>

lemma clickStarFilter_clicked:
  "fst (clickStarFilter pg f) \<Longrightarrow>
     length (filter navigating (snd (clickStarFilter pg f))) = 1 \<and>
     filter sessionWrite (snd (clickStarFilter pg f)) = [] \<and>
     (\<forall>m. SendMessage m \<notin> set (snd (clickStarFilter pg f)))"
  by (auto simp add: clickStarFilter_def split: option.splits if_splits)

text \<open>
  C7, as the program has it. When the address names no filter and \<open>clickStarFilter\<close>
  finds a control for the expected filter, \<open>scrapeCurrentPage\<close> clicks it, waits for
  the page to load, and returns: the session and the world are unchanged, the click is
  the only navigating effect, nothing is written and no message is sent. In particular
  a tick on a ready page with nothing stored and the start flag set, for the first
  filter: its only navigating effect is the click for \<open>one_star\<close>, and it stores
  nothing.
\<close>

theorem filter_activation:
  assumes "getCurrentStarFilter (page env) = None"
    and "fst (clickStarFilter (page env) (nthOpt STAR_FILTERS (currentStarIndex session)))"
  shows "scrapeCurrentPage env session w =
           (session, w, [Log LogWarn, Log LogInfo] @
              snd (clickStarFilter (page env) (nthOpt STAR_FILTERS (currentStarIndex session))) @
              [WaitForPageLoad, Delay 2000]) \<and>
         length (filter navigating (snd (snd (scrapeCurrentPage env session w)))) = 1 \<and>
         filter sessionWrite (snd (snd (scrapeCurrentPage env session w))) = [] \<and>
         (\<forall>m. SendMessage m \<notin> set (snd (snd (scrapeCurrentPage env session w)))) \<and>
         (localStorage w = None \<and> chromeSession w = None \<and> isScanning w \<and> \<not> isProcessing w \<and>
          (cards (page env) \<noteq> [] \<or> noReviewsSection (page env)) \<and> \<not> detectCaptcha (page env) \<and>
          \<not> fst (checkProductPageRedirect (page env)) \<and> href (page env) \<noteq> lastProcessedUrl w \<and>
          currentStarIndex session = 0
          \<longrightarrow> localStorage (fst (mainController env w)) = None \<and>
              chromeSession (fst (mainController env w)) = None \<and>
              filter navigating (snd (mainController env w)) =
                filter navigating (snd (clickStarFilter (page env) (Some one_star))) \<and>
              length (filter navigating (snd (mainController env w))) = 1 \<and>
              filter sessionWrite (snd (mainController env w)) = [] \<and>
              (\<forall>m. SendMessage m \<notin> set (snd (mainController env w))))"
proof -
  let ?ck = "clickStarFilter (page env) (nthOpt STAR_FILTERS (currentStarIndex session))"
  note ck = clickStarFilter_clicked [OF assms(2)]
  have vf: "validateFilter env session = (True, [Log LogWarn, Log LogInfo] @ snd ?ck @ [WaitForPageLoad, Delay 2000])"
    using assms by (simp add: validateFilter_def filterMismatch_def Let_def case_prod_unfold)
  have sc: "\<And>w'. scrapeCurrentPage env session w' = (session, w', [Log LogWarn, Log LogInfo] @ snd ?ck @ [WaitForPageLoad, Delay 2000])"
    by (simp add: scrapeCurrentPage_def vf)
  have tick: "localStorage (fst (mainController env w)) = None \<and>
              chromeSession (fst (mainController env w)) = None \<and>
              filter navigating (snd (mainController env w)) =
                filter navigating (snd (clickStarFilter (page env) (Some one_star))) \<and>
              length (filter navigating (snd (mainController env w))) = 1 \<and>
              filter sessionWrite (snd (mainController env w)) = [] \<and>
              (\<forall>m. SendMessage m \<notin> set (snd (mainController env w)))"
    if h: "localStorage w = None \<and> chromeSession w = None \<and> isScanning w \<and> \<not> isProcessing w \<and>
          (cards (page env) \<noteq> [] \<or> noReviewsSection (page env)) \<and> \<not> detectCaptcha (page env) \<and>
          \<not> fst (checkProductPageRedirect (page env)) \<and> href (page env) \<noteq> lastProcessedUrl w \<and>
          currentStarIndex session = 0"
  proof -
    let ?fresh = "\<lparr>isActive = True, reviews = [], currentStarIndex = 0, currentPage = Num 1,
                      lastUrl = [], startedAt = now env, lastUpdated = now env\<rparr>"
    have g: "getOrCreateSession env (w\<lparr>isProcessing := True\<rparr>) = (?fresh, [Log LogSuccess])"
      using h by (simp add: getOrCreateSession_def loadSessionFromLocalStorage_def)
    have nr: "snd (checkProductPageRedirect (page env)) = [] \<or> snd (checkProductPageRedirect (page env)) = [Log LogInfo]"
      using h by (auto simp add: checkProductPageRedirect_def split: option.splits if_splits)
    have ck0: "fst (clickStarFilter (page env) (nthOpt STAR_FILTERS 0))"
      using assms(2) h by simp
    have n0: "nthOpt STAR_FILTERS 0 = Some one_star" by (simp add: nthOpt_def STAR_FILTERS_def)
    have vf0: "validateFilter env (?fresh\<lparr>lastUrl := href (page env)\<rparr>) =
        (True, [Log LogWarn, Log LogInfo] @ snd (clickStarFilter (page env) (Some one_star)) @ [WaitForPageLoad, Delay 2000])"
      using assms(1) ck0 n0 by (simp add: validateFilter_def filterMismatch_def Let_def
          case_prod_unfold)
    have mc: "mainController env w =
        (w\<lparr>isProcessing := False, lastProcessedUrl := href (page env)\<rparr>,
         [Log LogSuccess] @ snd (checkProductPageRedirect (page env)) @ [Log LogInfo] @
         [Log LogWarn, Log LogInfo] @ snd (clickStarFilter (page env) (Some one_star)) @ [WaitForPageLoad, Delay 2000])"
      using h g vf0 by (auto simp add: mainController_def scrapeCurrentPage_def Let_def
          case_prod_unfold)
    from clickStarFilter_clicked [of "page env" "Some one_star"] ck0 n0 nr h show ?thesis
      by (auto simp add: mc)
  qed
  have call: "scrapeCurrentPage env session w =
           (session, w, [Log LogWarn, Log LogInfo] @ snd ?ck @ [WaitForPageLoad, Delay 2000]) \<and>
         length (filter navigating (snd (snd (scrapeCurrentPage env session w)))) = 1 \<and>
         filter sessionWrite (snd (snd (scrapeCurrentPage env session w))) = [] \<and>
         (\<forall>m. SendMessage m \<notin> set (snd (snd (scrapeCurrentPage env session w))))"
    using ck by (simp add: sc)
  from call tick show ?thesis by blast
qed

text \<open>
  The theorem on the unfiltered page that has a link to the first filter, for a fresh
  session.
\<close>

theorem filter_activation_witness:
  "getCurrentStarFilter (page linkedEnv) = None \<and>
   fst (clickStarFilter (page linkedEnv) (nthOpt STAR_FILTERS (currentStarIndex freshSession))) \<and>
   scrapeCurrentPage linkedEnv freshSession startWorld =
     (freshSession, startWorld,
      [Log LogWarn, Log LogInfo, Log LogInfo, ClickFilterLink 0, Log LogSuccess, WaitForPageLoad, Delay 2000]) \<and>
   filter navigating (snd (mainController linkedEnv startWorld)) = [ClickFilterLink 0] \<and>
   filter sessionWrite (snd (mainController linkedEnv startWorld)) = [] \<and>
   localStorage (fst (mainController linkedEnv startWorld)) = None"
proof -
  have h1: "getCurrentStarFilter (page linkedEnv) = None"
    by (simp add: eval_defs bareCard_def brokenCard_def blankCard_def fullCard_def
        listingPage_def nextPage_def exampleEnv_def unfilteredPage_def linkedPage_def linkedEnv_def)
  have ck: "clickStarFilter (page linkedEnv) (nthOpt STAR_FILTERS (currentStarIndex freshSession)) =
      (True, [Log LogInfo, ClickFilterLink 0, Log LogSuccess])"
    by (simp add: clickStarFilter_def filterText_def eval_defs bareCard_def brokenCard_def
        blankCard_def fullCard_def listingPage_def nextPage_def exampleEnv_def freshSession_def
        unfilteredPage_def linkedPage_def linkedEnv_def)
  have h2: "fst (clickStarFilter (page linkedEnv) (nthOpt STAR_FILTERS (currentStarIndex freshSession)))"
    by (simp add: ck)
  have ck1: "clickStarFilter (page linkedEnv) (Some one_star) = (True, [Log LogInfo, ClickFilterLink 0, Log LogSuccess])"
    using ck by (simp add: freshSession_def nthOpt_def STAR_FILTERS_def)
  have h3: "localStorage startWorld = None \<and> chromeSession startWorld = None \<and> isScanning startWorld \<and>
      \<not> isProcessing startWorld \<and>
      (cards (page linkedEnv) \<noteq> [] \<or> noReviewsSection (page linkedEnv)) \<and> \<not> detectCaptcha (page linkedEnv) \<and>
      \<not> fst (checkProductPageRedirect (page linkedEnv)) \<and> href (page linkedEnv) \<noteq> lastProcessedUrl startWorld \<and>
      currentStarIndex freshSession = 0"
    by (simp add: eval_defs bareCard_def brokenCard_def blankCard_def fullCard_def
        listingPage_def nextPage_def exampleEnv_def emptyWorld_def freshSession_def
        unfilteredPage_def startWorld_def linkedPage_def linkedEnv_def)
  show ?thesis
    using filter_activation [OF h1 h2, of startWorld] h1 h2 h3 ck ck1
    by simp
qed

text \<open>
  Against C7 as the specification states it. On the unfiltered page with no control
  for any filter, \<open>clickStarFilter\<close> fails, and the same tick goes on to extract: it
  stores the page's review, labelled with the first filter.
\<close>

theorem filter_activation_counterexample:
  "getCurrentStarFilter (page unfilteredEnv) = None \<and>
   \<not> fst (clickStarFilter (page unfilteredEnv) (Some one_star)) \<and>
   map_option (map reviewId \<circ> reviews) (localStorage (fst (mainController unfilteredEnv startWorld))) =
     Some [js ''R2''] \<and>
   map_option (map starFilter \<circ> reviews) (localStorage (fst (mainController unfilteredEnv startWorld))) =
     Some [Some [0x31, 0x2605]]"
  by (simp add: clickStarFilter_def filterText_def eval_defs bareCard_def brokenCard_def
      blankCard_def fullCard_def listingPage_def nextPage_def exampleEnv_def emptyWorld_def
      unfilteredPage_def startWorld_def unfilteredEnv_def)

section \<open>A next-page click that does not change the page\<close>

lemma switchToNextFilter_index:
  "currentStarIndex (fst (switchToNextFilter env s w)) = Suc (currentStarIndex s) \<and>
   currentPage (fst (switchToNextFilter env s w)) = Num 1"
  by (simp add: switchToNextFilter_def saveSession_eq Let_def case_prod_unfold)

lemma clickStarFilter_no_next: "ClickNextButton \<notin> set (snd (clickStarFilter pg f))"
  by (simp add: clickStarFilter_def split: option.splits)

lemma switchToNextFilter_no_next: "ClickNextButton \<notin> set (snd (snd (switchToNextFilter env s w)))"
  using clickStarFilter_no_next [of "pageAtSwitch env" "nthOpt STAR_FILTERS (Suc (currentStarIndex s))"]
  by (simp add: switchToNextFilter_def saveSession_eq clearSession_def downloadCSV_def Let_def
      case_prod_unfold)

lemma extractAndSave_no_next: "ClickNextButton \<notin> set (snd (snd (extractAndSave env s w)))"
  using extractReviews_logs [of "now env" "page env" "nthOpt STAR_FILTERS (currentStarIndex s)" "getCurrentPageNumber (page env)"]
  by (auto simp add: extractAndSave_def saveSession_eq Let_def case_prod_unfold)

lemma extractAndSave_index: "currentStarIndex (fst (extractAndSave env s w)) = currentStarIndex s"
  by (simp add: extractAndSave_def saveSession_eq Let_def case_prod_unfold)

lemma validateFilter_no_next: "ClickNextButton \<notin> set (snd (validateFilter env s))"
  using clickStarFilter_no_next [of "page env" "nthOpt STAR_FILTERS (currentStarIndex s)"]
  by (simp add: validateFilter_def Let_def case_prod_unfold)

text \<open>
  C8. When the page has an enabled next-page control, the click on it succeeds, and the
  page number read three seconds after the click is the number \<open>n\<close> read before it,
  the controller goes on to \<open>switchToNextFilter\<close>: the filter index goes up by one
  and \<open>currentPage\<close> becomes 1. The next-page control is clicked exactly once. The
  same holds for the whole call of \<open>scrapeCurrentPage\<close> when it gets past the filter
  check.
\<close>

theorem stalled_pager_switches_filter:
  assumes "hasNextPage (page env)"
    and "fst (clickNextPage (pageAtClick env))"
    and "getCurrentPageNumber (pageAtClick env) = Num n"
    and "getCurrentPageNumber (pageAfterClick env) = Num n"
  shows "paginate env session w =
           (fst (switchToNextFilter env session w), fst (snd (switchToNextFilter env session w)),
            [Log LogInfo, SendMessage (WAITING_STATUS (waitTime (delaySettings w) (random env))),
             ScrollTo, Delay 1000, ScrollTo, Delay (waitTime (delaySettings w) (random env)),
             ClickNextButton, Delay 3000, Log LogWarn] @ snd (snd (switchToNextFilter env session w))) \<and>
         currentStarIndex (fst (paginate env session w)) = Suc (currentStarIndex session) \<and>
         currentPage (fst (paginate env session w)) = Num 1 \<and>
         length (filter (\<lambda>e. e = ClickNextButton) (snd (snd (paginate env session w)))) = 1 \<and>
         (\<not> fst (validateFilter env session) \<longrightarrow>
            currentStarIndex (fst (scrapeCurrentPage env session w)) = Suc (currentStarIndex session) \<and>
            currentPage (fst (scrapeCurrentPage env session w)) = Num 1 \<and>
            length (filter (\<lambda>e. e = ClickNextButton) (snd (snd (scrapeCurrentPage env session w)))) = 1)"
proof -
  have nf: "\<And>es. ClickNextButton \<notin> set es \<Longrightarrow> filter (\<lambda>e. e = ClickNextButton) es = []"
    by (auto simp add: filter_empty_conv)
  have pg: "\<And>s' w'. paginate env s' w' =
           (fst (switchToNextFilter env s' w'), fst (snd (switchToNextFilter env s' w')),
            [Log LogInfo, SendMessage (WAITING_STATUS (waitTime (delaySettings w') (random env))),
             ScrollTo, Delay 1000, ScrollTo, Delay (waitTime (delaySettings w') (random env)),
             ClickNextButton, Delay 3000, Log LogWarn] @ snd (snd (switchToNextFilter env s' w')))"
    using assms by (auto simp add: paginate_def clickNextPage_def strictEq_def Let_def
        case_prod_unfold split: if_splits)
  have cnt: "\<And>s' w'. length (filter (\<lambda>e. e = ClickNextButton) (snd (snd (paginate env s' w')))) = 1"
    by (simp add: pg nf [OF switchToNextFilter_no_next])
  have sc: "\<not> fst (validateFilter env session) \<Longrightarrow>
      scrapeCurrentPage env session w =
        (fst (paginate env (fst (extractAndSave env session w)) (fst (snd (extractAndSave env session w)))),
         fst (snd (paginate env (fst (extractAndSave env session w)) (fst (snd (extractAndSave env session w))))),
         snd (validateFilter env session) @ snd (snd (extractAndSave env session w)) @
         snd (snd (paginate env (fst (extractAndSave env session w)) (fst (snd (extractAndSave env session w))))))"
    by (simp add: scrapeCurrentPage_def Let_def case_prod_unfold)
  have tick: "\<not> fst (validateFilter env session) \<Longrightarrow>
            currentStarIndex (fst (scrapeCurrentPage env session w)) = Suc (currentStarIndex session) \<and>
            currentPage (fst (scrapeCurrentPage env session w)) = Num 1 \<and>
            length (filter (\<lambda>e. e = ClickNextButton) (snd (snd (scrapeCurrentPage env session w)))) = 1"
    using cnt [of "fst (extractAndSave env session w)" "fst (snd (extractAndSave env session w))"]
    by (simp add: sc nf [OF validateFilter_no_next] nf [OF extractAndSave_no_next])
       (simp add: pg switchToNextFilter_index extractAndSave_index)
  have here: "paginate env session w =
           (fst (switchToNextFilter env session w), fst (snd (switchToNextFilter env session w)),
            [Log LogInfo, SendMessage (WAITING_STATUS (waitTime (delaySettings w) (random env))),
             ScrollTo, Delay 1000, ScrollTo, Delay (waitTime (delaySettings w) (random env)),
             ClickNextButton, Delay 3000, Log LogWarn] @ snd (snd (switchToNextFilter env session w))) \<and>
         currentStarIndex (fst (paginate env session w)) = Suc (currentStarIndex session) \<and>
         currentPage (fst (paginate env session w)) = Num 1 \<and>
         length (filter (\<lambda>e. e = ClickNextButton) (snd (snd (paginate env session w)))) = 1"
    using cnt [of session w] pg [of session w] by (simp add: switchToNextFilter_index)
  from here tick show ?thesis by blast
qed

text \<open>
  The theorem where the page stays at number 2 after the click: the session moves to
  filter index 1, and after the one click on the next-page control the link of the
  second filter is clicked.
\<close>

theorem stalled_pager_switches_filter_witness:
  "hasNextPage (page stalledEnv) \<and> fst (clickNextPage (pageAtClick stalledEnv)) \<and>
   getCurrentPageNumber (pageAtClick stalledEnv) = Num 2 \<and>
   getCurrentPageNumber (pageAfterClick stalledEnv) = Num 2 \<and>
   \<not> fst (validateFilter stalledEnv freshSession) \<and>
   currentStarIndex freshSession = 0 \<and>
   currentStarIndex (fst (scrapeCurrentPage stalledEnv freshSession startWorld)) = 1 \<and>
   currentPage (fst (scrapeCurrentPage stalledEnv freshSession startWorld)) = Num 1 \<and>
   filter navigating (snd (snd (scrapeCurrentPage stalledEnv freshSession startWorld))) =
     [ClickNextButton, ClickFilterLink 0]"
proof -
  have h: "hasNextPage (page stalledEnv) \<and> fst (clickNextPage (pageAtClick stalledEnv)) \<and>
     getCurrentPageNumber (pageAtClick stalledEnv) = Num 2 \<and>
     getCurrentPageNumber (pageAfterClick stalledEnv) = Num 2 \<and>
     \<not> fst (validateFilter stalledEnv freshSession) \<and> currentStarIndex freshSession = 0"
    by (simp add: eval_defs bareCard_def brokenCard_def blankCard_def fullCard_def
        listingPage_def nextPage_def exampleEnv_def freshSession_def stalledEnv_def)
  have e: "filter navigating (snd (snd (scrapeCurrentPage stalledEnv freshSession startWorld))) =
     [ClickNextButton, ClickFilterLink 0]"
    by (simp add: switchToNextFilter_def clickStarFilter_def filterText_def DELAY_BETWEEN_STARS_def
          eval_defs bareCard_def brokenCard_def blankCard_def fullCard_def listingPage_def
              nextPage_def exampleEnv_def emptyWorld_def freshSession_def startWorld_def
              stalledEnv_def)
  show ?thesis
    using stalled_pager_switches_filter [of stalledEnv 2 freshSession startWorld] h e
    by simp
qed

section \<open>Completion\<close>

lemma idle_tick:
  assumes "localStorage w = None" and "chromeSession w = None" and "\<not> isScanning w"
  shows "localStorage (fst (mainController env w)) = None \<and>
         chromeSession (fst (mainController env w)) = None \<and>
         \<not> isScanning (fst (mainController env w)) \<and>
         filter sessionWrite (snd (mainController env w)) = [] \<and>
         filter navigating (snd (mainController env w)) = []"
  using assms
  by (simp add: mainController_def getOrCreateSession_def loadSessionFromLocalStorage_def)

lemma idle_ticks:
  assumes "localStorage w = None" and "chromeSession w = None" and "\<not> isScanning w"
  shows "localStorage (fst (ticks envs w)) = None \<and>
         chromeSession (fst (ticks envs w)) = None \<and>
         filter sessionWrite (snd (ticks envs w)) = [] \<and>
         filter navigating (snd (ticks envs w)) = []"
  using assms
proof (induction envs arbitrary: w)
  case Nil
  then show ?case by simp
next
  case (Cons env envs)
  note t = idle_tick [OF Cons.prems, of env]
  from t have a: "localStorage (fst (mainController env w)) = None"
    and b: "chromeSession (fst (mainController env w)) = None"
    and c: "\<not> isScanning (fst (mainController env w))" by auto
  from Cons.IH [OF a b c] t show ?case
    by (simp add: case_prod_unfold Let_def)
qed

lemma downloadCSV_file:
  "rs \<noteq> [] \<Longrightarrow> filter isDownload (downloadCSV rs) =
     [DownloadFile ([0xFEFF] @ js ''Star Filter,Page,ID,Author,Rating,Title,Date,Variant,Verified,Review Body'' @
                      concat (map (\<lambda>r. [0x0A] @ join [0x2C] (csvValues r)) rs))]"
  by (simp add: downloadCSV_def foldl_push csv_document del: join.simps)

lemma downloadCSV_no_write: "filter sessionWrite (downloadCSV rs) = []"
  by (simp add: downloadCSV_def Let_def)

text \<open>
  C4. When \<open>switchToNextFilter\<close> takes the filter index from 4 to 5, it calls
  \<open>downloadCSV\<close> once, with all the session's reviews (for a non-empty list that is
  one file, the CSV document of these reviews), then removes the session from both
  storage tiers, once each, and clears the start flag; it clicks nothing. From the world
  it leaves, whatever the content script's globals are by then, no run of ticks writes
  the session or navigates, and both tiers stay empty.
\<close>

theorem completion_exports_once_and_clears:
  assumes "currentStarIndex session = 4"
  shows "switchToNextFilter env session w =
           (session\<lparr>currentStarIndex := 5, currentPage := Num 1\<rparr>,
            w\<lparr>localStorage := None, chromeSession := None, isScanning := False\<rparr>,
            [Log LogSuccess] @ downloadCSV (reviews session) @
            [LocalStorageRemove, ChromeStorageRemove, Log LogInfo,
             SendMessage (SCRAPING_COMPLETE (length (reviews session))), SetIsScanning False, Alert]) \<and>
         (reviews session \<noteq> [] \<longrightarrow>
            filter isDownload (snd (snd (switchToNextFilter env session w))) =
              [DownloadFile ([0xFEFF] @ js ''Star Filter,Page,ID,Author,Rating,Title,Date,Variant,Verified,Review Body'' @
                 concat (map (\<lambda>r. [0x0A] @ join [0x2C] (csvValues r)) (reviews session)))]) \<and>
         filter sessionWrite (snd (snd (switchToNextFilter env session w))) = [LocalStorageRemove, ChromeStorageRemove] \<and>
         filter navigating (snd (snd (switchToNextFilter env session w))) = [] \<and>
         (\<forall>envs b u.
            localStorage (fst (ticks envs (fst (snd (switchToNextFilter env session w))
               \<lparr>isProcessing := b, lastProcessedUrl := u\<rparr>))) = None \<and>
            chromeSession (fst (ticks envs (fst (snd (switchToNextFilter env session w))
               \<lparr>isProcessing := b, lastProcessedUrl := u\<rparr>))) = None \<and>
            filter sessionWrite (snd (ticks envs (fst (snd (switchToNextFilter env session w))
               \<lparr>isProcessing := b, lastProcessedUrl := u\<rparr>))) = [] \<and>
            filter navigating (snd (ticks envs (fst (snd (switchToNextFilter env session w))
               \<lparr>isProcessing := b, lastProcessedUrl := u\<rparr>))) = [])"
proof -
  have sw: "switchToNextFilter env session w =
           (session\<lparr>currentStarIndex := 5, currentPage := Num 1\<rparr>,
            w\<lparr>localStorage := None, chromeSession := None, isScanning := False\<rparr>,
            [Log LogSuccess] @ downloadCSV (reviews session) @
            [LocalStorageRemove, ChromeStorageRemove, Log LogInfo,
             SendMessage (SCRAPING_COMPLETE (length (reviews session))), SetIsScanning False, Alert])"
    using assms by (simp add: switchToNextFilter_def clearSession_def STAR_FILTERS_def Let_def)
  have dl: "reviews session \<noteq> [] \<Longrightarrow>
            filter isDownload (snd (snd (switchToNextFilter env session w))) =
              [DownloadFile ([0xFEFF] @ js ''Star Filter,Page,ID,Author,Rating,Title,Date,Variant,Verified,Review Body'' @
                 concat (map (\<lambda>r. [0x0A] @ join [0x2C] (csvValues r)) (reviews session)))]"
    by (simp add: sw downloadCSV_file)
  have wr: "filter sessionWrite (snd (snd (switchToNextFilter env session w))) = [LocalStorageRemove, ChromeStorageRemove]"
    by (simp add: sw downloadCSV_no_write)
  have nv: "filter navigating (snd (snd (switchToNextFilter env session w))) = []"
    by (simp add: sw downloadCSV_def Let_def)
  have after: "localStorage (fst (ticks envs (fst (snd (switchToNextFilter env session w))
               \<lparr>isProcessing := b, lastProcessedUrl := u\<rparr>))) = None \<and>
            chromeSession (fst (ticks envs (fst (snd (switchToNextFilter env session w))
               \<lparr>isProcessing := b, lastProcessedUrl := u\<rparr>))) = None \<and>
            filter sessionWrite (snd (ticks envs (fst (snd (switchToNextFilter env session w))
               \<lparr>isProcessing := b, lastProcessedUrl := u\<rparr>))) = [] \<and>
            filter navigating (snd (ticks envs (fst (snd (switchToNextFilter env session w))
               \<lparr>isProcessing := b, lastProcessedUrl := u\<rparr>))) = []" for envs b u
    by (rule idle_ticks) (simp_all add: sw)
  from sw dl wr nv after show ?thesis by blast
qed

text \<open>
  The theorem for the example session at the last filter, and the tick that completes
  the run on the last page: one file, one removal in each tier, both tiers empty.
\<close>

theorem completion_exports_once_and_clears_witness:
  "currentStarIndex lastSession = 4 \<and>
   filter isDownload (snd (snd (switchToNextFilter lastEnv lastSession lastWorld))) =
     [DownloadFile ([0xFEFF] @ js ''Star Filter,Page,ID,Author,Rating,Title,Date,Variant,Verified,Review Body'' @
                  [0x0A, 0x31, 0x2605] @
                  js '',2,\"R1\",\"A\"\"B\",\"\"5\",\"Good\",\"1 May 2024\",\"\",Yes,\"a b\"'')] \<and>
   localStorage (fst (snd (switchToNextFilter lastEnv lastSession lastWorld))) = None \<and>
   chromeSession (fst (snd (switchToNextFilter lastEnv lastSession lastWorld))) = None \<and>
   filter sessionWrite (snd (ticks [exampleEnv, lastEnv]
      (fst (snd (switchToNextFilter lastEnv lastSession lastWorld))
         \<lparr>isProcessing := False, lastProcessedUrl := href lastPage\<rparr>))) = [] \<and>
   filter navigating (snd (ticks [exampleEnv, lastEnv]
      (fst (snd (switchToNextFilter lastEnv lastSession lastWorld))
         \<lparr>isProcessing := False, lastProcessedUrl := href lastPage\<rparr>))) = [] \<and>
   length (filter isDownload (snd (mainController lastEnv lastWorld))) = 1 \<and>
   length (filter (\<lambda>e. e = LocalStorageRemove) (snd (mainController lastEnv lastWorld))) = 1 \<and>
   length (filter (\<lambda>e. e = ChromeStorageRemove) (snd (mainController lastEnv lastWorld))) = 1 \<and>
   localStorage (fst (mainController lastEnv lastWorld)) = None \<and>
   chromeSession (fst (mainController lastEnv lastWorld)) = None"
proof -
  have h: "currentStarIndex lastSession = 4" by (simp add: lastSession_def)
  have r: "reviews lastSession = [exampleReview]" by (simp add: lastSession_def exampleSession_def)
  have row: "join [0x2C] (csvValues exampleReview) =
      [0x31, 0x2605] @ js '',2,\"R1\",\"A\"\"B\",\"\"5\",\"Good\",\"1 May 2024\",\"\",Yes,\"a b\"''"
    by (simp add: csvValues_def exampleReview_def orElse_def quoteField_def replaceAll_def
         numToString_def js_def digitsOf.simps)
  have t1: "length (filter isDownload (snd (mainController lastEnv lastWorld))) = 1"
    by (simp add: switchToNextFilter_def clearSession_def downloadCSV_def
          eval_defs bareCard_def brokenCard_def blankCard_def fullCard_def listingPage_def
              nextPage_def exampleEnv_def emptyWorld_def exampleReview_def exampleSession_def
              startWorld_def lastSession_def lastPage_def lastEnv_def lastWorld_def del: join.simps)
  have t2: "length (filter (\<lambda>e. e = LocalStorageRemove) (snd (mainController lastEnv lastWorld))) = 1 \<and>
      length (filter (\<lambda>e. e = ChromeStorageRemove) (snd (mainController lastEnv lastWorld))) = 1"
    by (simp add: switchToNextFilter_def clearSession_def downloadCSV_def
          eval_defs bareCard_def brokenCard_def blankCard_def fullCard_def listingPage_def
              nextPage_def exampleEnv_def emptyWorld_def exampleReview_def exampleSession_def
              startWorld_def lastSession_def lastPage_def lastEnv_def lastWorld_def del: join.simps)
  have t3: "localStorage (fst (mainController lastEnv lastWorld)) = None \<and>
            chromeSession (fst (mainController lastEnv lastWorld)) = None"
    by (simp add: switchToNextFilter_def clearSession_def downloadCSV_def
          eval_defs bareCard_def brokenCard_def blankCard_def fullCard_def listingPage_def
              nextPage_def exampleEnv_def emptyWorld_def exampleReview_def exampleSession_def
              startWorld_def lastSession_def lastPage_def lastEnv_def lastWorld_def del: join.simps)
  note T = completion_exports_once_and_clears [OF h, of lastEnv lastWorld]
  have a: "filter isDownload (snd (snd (switchToNextFilter lastEnv lastSession lastWorld))) =
     [DownloadFile ([0xFEFF] @ js ''Star Filter,Page,ID,Author,Rating,Title,Date,Variant,Verified,Review Body'' @
                  [0x0A, 0x31, 0x2605] @
                  js '',2,\"R1\",\"A\"\"B\",\"\"5\",\"Good\",\"1 May 2024\",\"\",Yes,\"a b\"'')]"
    using T [THEN conjunct2, THEN conjunct1] r row by simp
  have b: "localStorage (fst (snd (switchToNextFilter lastEnv lastSession lastWorld))) = None \<and>
     chromeSession (fst (snd (switchToNextFilter lastEnv lastSession lastWorld))) = None"
    using T [THEN conjunct1] by simp
  have c: "filter sessionWrite (snd (ticks [exampleEnv, lastEnv]
      (fst (snd (switchToNextFilter lastEnv lastSession lastWorld))
         \<lparr>isProcessing := False, lastProcessedUrl := href lastPage\<rparr>))) = [] \<and>
   filter navigating (snd (ticks [exampleEnv, lastEnv]
      (fst (snd (switchToNextFilter lastEnv lastSession lastWorld))
         \<lparr>isProcessing := False, lastProcessedUrl := href lastPage\<rparr>))) = []"
    using T [THEN conjunct2, THEN conjunct2, THEN conjunct2, THEN conjunct2]
    by blast
  from h a b c t1 t2 t3 show ?thesis by (simp del: ticks.simps)
qed

section \<open>The stop signal\<close>

text \<open>
  C1 does not hold of the program. \<open>handleStopScraping\<close> clears the start flag and
  leaves the stored session as it is, active; the next tick loads that session and goes
  on: on the example page it stores the page's two reviews after the one it had, and
  clicks the next-page control.
\<close>

theorem stop_leaves_stored_session_running:
  "isActive exampleSession \<and>
   fst (handleStopScraping storedWorld) = storedWorld\<lparr>isScanning := False\<rparr> \<and>
   localStorage (fst (handleStopScraping storedWorld)) = Some exampleSession \<and>
   filter navigating (snd (mainController exampleEnv (fst (handleStopScraping storedWorld)))) = [ClickNextButton] \<and>
   map_option (map reviewId \<circ> reviews) (localStorage (fst (mainController exampleEnv (fst (handleStopScraping storedWorld))))) =
     Some [js ''R1'', js ''review-5000-0'', js ''R2'']"
  by (simp add: handleStopScraping_def eval_defs bareCard_def brokenCard_def blankCard_def
      fullCard_def listingPage_def nextPage_def exampleEnv_def emptyWorld_def exampleReview_def
      exampleSession_def startWorld_def storedWorld_def numToString_def digitsOf.simps)

text \<open>What does hold: a stop that arrives while no session is stored ends the run.\<close>

lemma stop_before_first_save:
  assumes "localStorage w = None" and "chromeSession w = None"
  shows "filter navigating (snd (ticks envs (fst (handleStopScraping w)))) = [] \<and>
         filter sessionWrite (snd (ticks envs (fst (handleStopScraping w)))) = []"
  using idle_ticks [of "fst (handleStopScraping w)" envs] assms
  by (simp add: handleStopScraping_def)

section \<open>The wait before a page advance\<close>

lemma floor_scaled:
  fixes u d :: real
  assumes "0 \<le> u" and "u < 1" and "0 < d"
  shows "0 \<le> \<lfloor>u * d\<rfloor> \<and> of_int \<lfloor>u * d\<rfloor> < d"
proof -
  have a: "0 \<le> u * d" using assms by simp
  have b: "u * d < d" using assms by simp
  have "of_int \<lfloor>u * d\<rfloor> \<le> u * d" by (rule of_int_floor_le)
  with b have c: "of_int \<lfloor>u * d\<rfloor> < d" by linarith
  from a have "0 \<le> \<lfloor>u * d\<rfloor>" by simp
  with c show ?thesis by simp
qed

text \<open>
  C9 does not hold of the program. For every value of \<open>Math.random()\<close>, the wait
  that \<open>scrapeCurrentPage\<close> computes with no stored configuration is at least 2000
  and at most 4999: the maximum 5000 is never the result. With a stored configuration
  of two non-zero numbers \<open>mn < mx\<close> the wait is at least \<open>mn\<close> and below
  \<open>mx\<close>.
\<close>

theorem page_wait_excludes_max:
  assumes "0 \<le> u" and "u < 1"
  shows "2000 \<le> waitTime None u \<and> waitTime None u \<le> 4999 \<and> waitTime None u \<noteq> 5000 \<and>
         (mn \<noteq> 0 \<and> mx \<noteq> 0 \<and> mn < mx \<longrightarrow>
            mn \<le> waitTime (Some (mn, mx)) u \<and> waitTime (Some (mn, mx)) u < mx)"
proof -
  have d: "waitTime None u = of_int \<lfloor>u * 3000\<rfloor> + 2000"
    by (simp add: waitTime_def DELAY_BETWEEN_PAGES_MIN_def DELAY_BETWEEN_PAGES_MAX_def)
  from floor_scaled [OF assms, of 3000] have f: "0 \<le> \<lfloor>u * 3000\<rfloor>" "\<lfloor>u * 3000\<rfloor> < 3000"
    by simp_all
  then have "\<lfloor>u * 3000\<rfloor> \<le> 2999" by simp
  then have g: "(of_int \<lfloor>u * 3000\<rfloor> :: real) \<le> 2999" by (metis of_int_le_iff of_int_numeral)
  from f have g0: "(0::real) \<le> of_int \<lfloor>u * 3000\<rfloor>" by simp
  have dflt: "2000 \<le> waitTime None u \<and> waitTime None u \<le> 4999 \<and> waitTime None u \<noteq> 5000"
    unfolding d using g g0 by linarith
  have cfg: "mn \<le> waitTime (Some (mn, mx)) u \<and> waitTime (Some (mn, mx)) u < mx"
    if h: "mn \<noteq> 0 \<and> mx \<noteq> 0 \<and> mn < mx"
  proof -
    have e: "waitTime (Some (mn, mx)) u = of_int \<lfloor>u * (mx - mn)\<rfloor> + mn"
      using h by (simp add: waitTime_def numOr_def)
    from h have "0 < mx - mn" by simp
    from floor_scaled [OF assms this] show ?thesis by (simp add: e)
  qed
  from dflt cfg show ?thesis by blast
qed

text \<open>The theorem at \<open>Math.random() = 0.5\<close>.\<close>

theorem page_wait_excludes_max_witness:
  "(0::real) \<le> 1 / 2 \<and> (1::real) / 2 < 1 \<and> waitTime None (1 / 2) = 3500 \<and>
   waitTime (Some (1000, 3000)) (1 / 2) = 2000 \<and> waitTime (Some (1000, 3000)) (1 / 2) < 3000"
proof -
  have h1: "(0::real) \<le> 1 / 2" by simp
  have h2: "(1::real) / 2 < 1" by simp
  have e: "waitTime None (1 / 2) = 3500 \<and> waitTime (Some (1000, 3000)) (1 / 2) = 2000"
    by (simp add: waitTime_def numOr_def DELAY_BETWEEN_PAGES_MIN_def DELAY_BETWEEN_PAGES_MAX_def)
  show ?thesis
    using page_wait_excludes_max [OF h1 h2, of 1000 3000] e by simp
qed

text \<open>
  The helper \<open>randomDelay\<close>, which nothing calls, does reach its maximum; and a
  configured zero is replaced by the default.
\<close>

lemma randomDelay_reaches_max: "randomDelay (9999 / 10000) 2000 5000 = [Delay 5000]"
proof -
  have "(9999 / 10000 * (5000 - 2000 + 1) + 2000 :: real) = 50006999 / 10000" by simp
  moreover have "\<lfloor>50006999 / 10000 :: real\<rfloor> = 5000" by (simp add: floor_eq_iff)
  ultimately show ?thesis by (simp add: randomDelay_def)
qed

lemma configured_zero_is_replaced: "waitTime (Some (0, 0)) u = waitTime None u"
  by (simp add: waitTime_def numOr_def)

end
